theory Spec2Isabelle
  imports Main "HOL-Library.Word"
begin

section \<open>The D3D12 API wrapper of Antares (D3D12APIWrapper.cpp, \<open>_API_WRAPPER_V2_\<close>)\<close>

text \<open>
  The wrapper keeps its buffers, query heaps and free lists in process-wide variables,
  drives one command list per stream and calls a device object that is not part of the
  file. The model keeps the globals in one record that every entry point takes and
  returns, the objects behind raw pointers in explicit stores, and every call made on a
  driver object as an entry of a log, in the order the code makes it.
\<close>

subsection \<open>Failures\<close>

datatype error =
    NullResult                \<comment> \<open>the entry point returns \<open>nullptr\<close>\<close>
  | RuntimeError string       \<comment> \<open>\<open>throw std::runtime_error(msg)\<close>\<close>
  | AssertionFailed           \<comment> \<open>an \<open>assert\<close> of the source does not hold\<close>
  | OutOfRange                \<comment> \<open>an index or pointer outside its container\<close>
  | DriverFailure             \<comment> \<open>a driver call under \<open>IFE\<close> reports failure\<close>
  | NoReturn                  \<comment> \<open>a loop of the source that never ends\<close>
  | InvalidParameter          \<comment> \<open>the C runtime's invalid-parameter handler is invoked\<close>

subsection \<open>Resource states and barriers\<close>

type_synonym D3D12_RESOURCE_STATES = "32 word"

definition D3D12_RESOURCE_STATE_COMMON :: D3D12_RESOURCE_STATES where
  "D3D12_RESOURCE_STATE_COMMON = 0"

definition D3D12_RESOURCE_STATE_UNORDERED_ACCESS :: D3D12_RESOURCE_STATES where
  "D3D12_RESOURCE_STATE_UNORDERED_ACCESS = 0x8"

definition D3D12_RESOURCE_STATE_NON_PIXEL_SHADER_RESOURCE :: D3D12_RESOURCE_STATES where
  "D3D12_RESOURCE_STATE_NON_PIXEL_SHADER_RESOURCE = 0x40"

text \<open>A driver object is known by a number; a null \<open>ComPtr\<close> is \<open>None\<close>.\<close>

type_synonym ID3D12Resource = nat

datatype D3D12_RESOURCE_BARRIER =
    TRANSITION "ID3D12Resource option" D3D12_RESOURCE_STATES D3D12_RESOURCE_STATES
      \<comment> \<open>resource, \<open>StateBefore\<close>, \<open>StateAfter\<close>\<close>
  | UAV "ID3D12Resource option"

text \<open>The calls a stream makes on its command allocator and its command list.\<close>

datatype command =
    CmdAllocator_Reset
  | CmdList_Reset
  | SetDescriptorHeaps
  | ResourceBarrier D3D12_RESOURCE_BARRIER
  | ResolveQueryData nat "32 word"          \<comment> \<open>heap index, number of queries resolved\<close>
  | Close
  | SetComputeRootSignature
  | SetPipelineState
  | SetComputeRootDescriptorTable nat       \<comment> \<open>the table slot the GPU handle points to\<close>
  | SetComputeRootShaderResourceView "32 word" "ID3D12Resource option"
  | SetComputeRootUnorderedAccessView "32 word" "ID3D12Resource option"
  | Dispatch int int int
  | EndQuery nat "32 word"

record dx_buffer_t =
  size_b :: nat
  handle :: "ID3D12Resource option"
  state_b :: D3D12_RESOURCE_STATES

text \<open>
  \<open>dx_buffer_t::StateTransition\<close>: the command list is the one of the stream the caller
  records into; the buffer is returned with its recorded state.
\<close>

definition StateTransition ::
  "command list \<Rightarrow> D3D12_RESOURCE_STATES \<Rightarrow> dx_buffer_t \<Rightarrow> dx_buffer_t \<times> command list" where
  "StateTransition pCmdList dstState b =
     (if dstState \<noteq> state_b b then
        (b\<lparr>state_b := dstState\<rparr>,
         pCmdList @ [ResourceBarrier (TRANSITION (handle b) (state_b b) dstState)])
      else if dstState = D3D12_RESOURCE_STATE_UNORDERED_ACCESS then
        (b, pCmdList @ [ResourceBarrier (UAV (handle b))])
      else (b, pCmdList))"

text \<open>A sequence of transition calls on one buffer, recorded into one command list.\<close>

fun StateTransition_calls ::
  "command list \<Rightarrow> D3D12_RESOURCE_STATES list \<Rightarrow> dx_buffer_t \<Rightarrow> dx_buffer_t \<times> command list" where
  "StateTransition_calls pCmdList [] b = (b, pCmdList)"
| "StateTransition_calls pCmdList (dstState # rest) b =
     (case StateTransition pCmdList dstState b of
        (b', pCmdList') \<Rightarrow> StateTransition_calls pCmdList' rest b')"

subsection \<open>C library and \<open>std::string\<close> operations the file relies on\<close>

text \<open>
  Strings are byte lists. Positions are kept as natural numbers: for a string shorter
  than \<open>2^31\<close> bytes the \<open>int\<close> variables of the code hold them exactly, and the only
  effect of the casts \<open>(int)source.find(...)\<close> is that \<open>npos\<close> becomes negative.
\<close>

text \<open>\<open>isdigit\<close> and \<open>isspace\<close> of the C locale; a byte above 127 is neither.\<close>

definition isdigit :: "char \<Rightarrow> bool" where
  "isdigit c \<longleftrightarrow> (48::nat) \<le> of_char c \<and> (of_char c :: nat) \<le> 57"

definition isspace :: "char \<Rightarrow> bool" where
  "isspace c \<longleftrightarrow> (of_char c :: nat) = 32 \<or> ((9::nat) \<le> of_char c \<and> (of_char c :: nat) \<le> 13)"

definition INT_MAX :: int where
  "INT_MAX = 2147483647"

definition INT_MIN :: int where
  "INT_MIN = - 2147483648"

text \<open>The value of the longest prefix of decimal digits, read left to right.\<close>

fun digits_value :: "nat \<Rightarrow> string \<Rightarrow> nat" where
  "digits_value acc [] = acc"
| "digits_value acc (c # cs) =
     (if isdigit c then digits_value (10 * acc + (of_char c - 48)) cs else acc)"

text \<open>
  \<open>std::atoi\<close>: white space, an optional sign, then digits up to the first other byte
  (the terminating NUL of \<open>c_str()\<close> is such a byte, so a string with an embedded NUL
  reads the same). The C standard leaves the result undefined when the value does not fit
  an \<open>int\<close>; the Microsoft C runtime, the only one this Direct3D file builds against,
  returns \<open>INT_MAX\<close> or \<open>INT_MIN\<close> there, and so does the model.
\<close>

definition atoi :: "string \<Rightarrow> int" where
  "atoi s =
     (case dropWhile isspace s of
        [] \<Rightarrow> 0
      | c # r \<Rightarrow>
          if c = CHR ''-'' then max INT_MIN (- int (digits_value 0 r))
          else if c = CHR ''+'' then min INT_MAX (int (digits_value 0 r))
          else min INT_MAX (int (digits_value 0 (c # r))))"

text \<open>C division and remainder truncate towards zero.\<close>

definition c_div :: "int \<Rightarrow> int \<Rightarrow> int" where
  "c_div a b = (if (a < 0) = (b < 0) then \<bar>a\<bar> div \<bar>b\<bar> else - (\<bar>a\<bar> div \<bar>b\<bar>))"

definition c_rem :: "int \<Rightarrow> int \<Rightarrow> int" where
  "c_rem a b = a - b * c_div a b"

text \<open>The conversion of an \<open>int\<close> to the 64-bit \<open>size_t\<close>.\<close>

definition size_t_of_int :: "int \<Rightarrow> nat" where
  "size_t_of_int x = nat (x mod 2 ^ 64)"

text \<open>\<open>s.find(pat, pos)\<close>: the first position from \<open>pos\<close> on where \<open>pat\<close> starts.\<close>

fun find_first :: "string \<Rightarrow> string \<Rightarrow> nat option" where
  "find_first pat [] = (if pat = [] then Some 0 else None)"
| "find_first pat (c # cs) =
     (if take (length pat) (c # cs) = pat then Some 0
      else map_option Suc (find_first pat cs))"

definition find_str :: "string \<Rightarrow> string \<Rightarrow> nat \<Rightarrow> nat option" where
  "find_str s pat pos =
     (if length s < pos then None
      else map_option (\<lambda>k. pos + k) (find_first pat (drop pos s)))"

text \<open>The cast \<open>(int)s.find(...)\<close>: \<open>npos\<close> is all ones, hence \<open>-1\<close>.\<close>

definition int_of_pos :: "nat option \<Rightarrow> int" where
  "int_of_pos r = (case r of None \<Rightarrow> - 1 | Some k \<Rightarrow> int k)"

text \<open>\<open>s.substr(pos, n)\<close> throws \<open>std::out_of_range\<close> when \<open>pos\<close> is beyond the end.\<close>

definition substr :: "string \<Rightarrow> nat \<Rightarrow> nat \<Rightarrow> error + string" where
  "substr s pos n = (if length s < pos then Inl OutOfRange else Inr (take n (drop pos s)))"

text \<open>
  \<open>get_between\<close>, test by test as the source has it: after the search for the end marker
  the code tests \<open>idx\<close> a second time, and \<open>tail\<close> never.
\<close>

definition get_between :: "string \<Rightarrow> string \<Rightarrow> string \<Rightarrow> string \<Rightarrow> error + string" where
  "get_between source begin_m end_m def =
     (let idx = int_of_pos (find_str source begin_m 0) in
      if idx < 0 then Inr def
      else
        let idx = idx + int (length begin_m);
            tail = int_of_pos (find_str source end_m (size_t_of_int idx))
        in if idx < 0 then Inr def
           else substr source (size_t_of_int idx) (size_t_of_int (tail - idx)))"

subsection \<open>Tensors\<close>

record dx_tensor_t =
  shape :: "64 word list"
  name :: string
  dtype :: string

text \<open>\<open>std::accumulate\<close> with \<open>std::multiplies<size_t>\<close>, starting from 1.\<close>

definition NumElements :: "dx_tensor_t \<Rightarrow> 64 word" where
  "NumElements t = foldl (\<lambda>acc d. acc * d) 1 (shape t)"

text \<open>
  \<open>TypeSize\<close>: the loop runs \<open>i\<close> from the last byte down to the first; the second
  argument of \<open>TypeSize_loop\<close> is \<open>i + 1\<close>. At the first byte that is not a digit the
  bytes behind it are given to \<open>atoi\<close>.
\<close>

fun TypeSize_loop :: "string \<Rightarrow> nat \<Rightarrow> error + nat" where
  "TypeSize_loop dt 0 = Inl (RuntimeError (''Invalid data type name: '' @ dt))"
| "TypeSize_loop dt (Suc i) =
     (if \<not> isdigit (dt ! i) then
        (let bits = atoi (drop (i + 1) dt) in
         if c_rem bits 8 > 0 then
           Inl (RuntimeError ''Data type bitsize must align with 8-bit byte type.'')
         else Inr (size_t_of_int (c_div bits 8)))
      else TypeSize_loop dt i)"

definition TypeSize :: "dx_tensor_t \<Rightarrow> error + nat" where
  "TypeSize t = TypeSize_loop (dtype t) (length (dtype t))"

subsection \<open>Kernels\<close>

record dx_shader_t =
  block :: "int \<times> int \<times> int"
  thread :: "int \<times> int \<times> int"
  inputs :: "dx_tensor_t list"
  outputs :: "dx_tensor_t list"
  source :: string

text \<open>
  The lambda \<open>ssplit\<close>. Every round of its loop moves \<open>it\<close> forward by at least the length
  of the delimiter, so one round per byte of the source, and one more, is all a delimiter
  that is not empty can use; with the empty delimiter the loop never ends.
\<close>

fun ssplit_loop :: "nat \<Rightarrow> string \<Rightarrow> string \<Rightarrow> nat \<Rightarrow> error + string list" where
  "ssplit_loop 0 src delim it = Inl NoReturn"
| "ssplit_loop (Suc rounds) src delim it =
     (case find_str src delim it of
        None \<Rightarrow> Inr [drop it src]
      | Some next \<Rightarrow>
          (case ssplit_loop rounds src delim (next + length delim) of
             Inl e \<Rightarrow> Inl e
           | Inr ret \<Rightarrow> Inr (take (next - it) (drop it src) # ret)))"

definition ssplit :: "string \<Rightarrow> string \<Rightarrow> error + string list" where
  "ssplit src delim = ssplit_loop (Suc (length src)) src delim 0"

text \<open>The lambda \<open>parse_tensor\<close>; \<open>parts[1]\<close> and \<open>parts[2]\<close> are read unchecked.\<close>

definition parse_tensor :: "string \<Rightarrow> error + dx_tensor_t" where
  "parse_tensor param =
     (case ssplit param ''/'' of
        Inl e \<Rightarrow> Inl e
      | Inr parts \<Rightarrow>
          (case parts of
             [] \<Rightarrow> Inl OutOfRange
           | p0 # _ \<Rightarrow>
               (case ssplit p0 ''-'' of
                  Inl e \<Rightarrow> Inl e
                | Inr dims \<Rightarrow>
                    if length parts < 3 then Inl OutOfRange
                    else Inr \<lparr>shape = map (\<lambda>it. word_of_int (atoi it)) dims,
                              name = parts ! 2, dtype = parts ! 1\<rparr>)))"

text \<open>The loops that push one parsed tensor per parameter.\<close>

fun parse_tensors :: "string list \<Rightarrow> error + dx_tensor_t list" where
  "parse_tensors [] = Inr []"
| "parse_tensors (p # ps) =
     (case parse_tensor p of
        Inl e \<Rightarrow> Inl e
      | Inr t \<Rightarrow> (case parse_tensors ps of Inl e \<Rightarrow> Inl e | Inr ts \<Rightarrow> Inr (t # ts)))"

text \<open>One launch-geometry annotation: \<open>std::atoi(get_between(source, marker, "\n", "1"))\<close>.\<close>

definition thread_extent :: "string \<Rightarrow> string \<Rightarrow> error + int" where
  "thread_extent src axis =
     (case get_between src (''// [thread_extent] '' @ axis @ '' = '') [CHR 0x0A] ''1'' of
        Inl e \<Rightarrow> Inl e
      | Inr v \<Rightarrow> Inr (atoi v))"

definition thread_extents :: "string \<Rightarrow> string \<Rightarrow> error + int \<times> int \<times> int" where
  "thread_extents src var =
     (case thread_extent src (var @ ''.x'') of
        Inl e \<Rightarrow> Inl e
      | Inr x \<Rightarrow>
          (case thread_extent src (var @ ''.y'') of
             Inl e \<Rightarrow> Inl e
           | Inr y \<Rightarrow>
               (case thread_extent src (var @ ''.z'') of
                  Inl e \<Rightarrow> Inl e
                | Inr z \<Rightarrow> Inr (x, y, z))))"

text \<open>
  The asserted expression \<open>INT64(thread[0]) * thread[1] * thread[2] <= 1024\<close>: both
  products are formed in 64-bit two's complement.
\<close>

definition INT64_mul :: "int \<Rightarrow> int \<Rightarrow> int" where
  "INT64_mul a b = sint (word_of_int a * word_of_int b :: 64 word)"

definition thread_product :: "int \<times> int \<times> int \<Rightarrow> int" where
  "thread_product t = (case t of (x, y, z) \<Rightarrow> INT64_mul (INT64_mul x y) z)"

text \<open>
  Lines 296 to 313 of \<open>dxCreateShader\<close>: the metadata line, the tensors on both sides of
  the colon, the six annotations and the assertion on the thread extents.
\<close>

definition parse_shader :: "string \<Rightarrow> error + dx_shader_t" where
  "parse_shader src =
     (case get_between src ''///'' [CHR 0x0A] [] of
        Inl e \<Rightarrow> Inl e
      | Inr str_params \<Rightarrow>
     (case ssplit str_params '':'' of
        Inl e \<Rightarrow> Inl e
      | Inr arr_params \<Rightarrow>
     if length arr_params \<noteq> 2 then Inl AssertionFailed
     else
     (case ssplit (arr_params ! 0) '','' of
        Inl e \<Rightarrow> Inl e
      | Inr in_params \<Rightarrow>
     (case ssplit (arr_params ! 1) '','' of
        Inl e \<Rightarrow> Inl e
      | Inr out_params \<Rightarrow>
     (case parse_tensors in_params of
        Inl e \<Rightarrow> Inl e
      | Inr ins \<Rightarrow>
     (case parse_tensors out_params of
        Inl e \<Rightarrow> Inl e
      | Inr outs \<Rightarrow>
     (case thread_extents src ''blockIdx'' of
        Inl e \<Rightarrow> Inl e
      | Inr blk \<Rightarrow>
     (case thread_extents src ''threadIdx'' of
        Inl e \<Rightarrow> Inl e
      | Inr thr \<Rightarrow>
     if \<not> thread_product thr \<le> 1024 then Inl AssertionFailed
     else Inr \<lparr>block = blk, thread = thr, inputs = ins, outputs = outs,
               source = src\<rparr>))))))))"

subsection \<open>The device and the process-wide variables\<close>

text \<open>
  \<open>antares::D3DDevice\<close>, the compiler and the driver are outside the file. Their calls are
  logged in the order they are made; what they answer (a created resource, the value of a
  signalled fence, whether the calls under \<open>IFE\<close> succeed, whether the source compiles, the
  bytes of a file) is an argument of the entry point that asks.
\<close>

datatype device_call =
    Init
  | CreateGPUOnlyResource nat
  | CreateCommandAllocator
  | CreateCommandList
  | CreateDescriptorHeap nat
  | CreateRootSignature nat nat              \<comment> \<open>number of inputs, number of outputs\<close>
  | CreateComputePipelineState
  | CreateShaderResourceView "ID3D12Resource option" "32 word" "32 word" nat
      \<comment> \<open>resource, \<open>NumElements\<close>, \<open>StructureByteStride\<close>, table slot\<close>
  | CreateUnorderedAccessView "ID3D12Resource option" "32 word" "32 word" nat
  | ExecuteCommandLists "command list"
  | SignalFence
  | WaitForFence "64 word"
  | CreateCommittedResource nat              \<comment> \<open>width in bytes of the readback buffer\<close>
  | CreateQueryHeap "32 word"

text \<open>The two driver objects of a query heap are known by the heap's index.\<close>

record dx_query_heap_t =
  curIdx :: "32 word"
  totSize :: "32 word"

record dx_query_t =
  heapIdx :: "32 word"
  queryIdxInHeap :: "32 word"

datatype State = INRECORD | SUBMITTED

record dx_stream_t =
  fenceVal :: "64 word"
  pCmdList :: "command list"
  state_s :: State
  descIdxOffset :: "32 word"
  queryHeapsNeedToResolve :: "nat list"

text \<open>
  A \<open>dx_buffer_t*\<close> is the index of the buffer in \<open>buffers\<close>, which owns every buffer
  ever created and never shrinks. \<open>bufferDict[bytes]\<close> creates an empty vector for a
  size not seen before, so the dictionary is a function with \<open>[]\<close> everywhere at the start.
\<close>

record dx_globals =
  inited :: bool
  bufferDict :: "nat \<Rightarrow> nat list"
  buffers :: "dx_buffer_t list"
  globalQueryHeaps :: "dx_query_heap_t list"
  globalFreeQueries :: "dx_query_t list"
  device :: "device_call list"

definition initial_globals :: dx_globals where
  "initial_globals =
     \<lparr>inited = False, bufferDict = (\<lambda>_. []), buffers = [], globalQueryHeaps = [],
      globalFreeQueries = [], device = []\<rparr>"

definition dxInit :: "int \<Rightarrow> dx_globals \<Rightarrow> int \<times> dx_globals" where
  "dxInit flags g =
     (if \<not> inited g then (0, g\<lparr>inited := True, device := device g @ [Init]\<rparr>)
      else (0, g))"

subsection \<open>Buffer pool\<close>

text \<open>
  \<open>dxAllocateBuffer\<close>. \<open>auto buffs = bufferDict[bytes]\<close> declares a vector, not a
  reference: \<open>buffs\<close> is a copy of the free list, and \<open>pop_back\<close> shortens the copy.
  \<open>created\<close> is what \<open>CreateGPUOnlyResource\<close> leaves in the handle.
\<close>

definition dxAllocateBuffer ::
  "ID3D12Resource option \<Rightarrow> nat \<Rightarrow> dx_globals \<Rightarrow> error + nat \<times> dx_globals" where
  "dxAllocateBuffer created bytes g0 =
     (case dxInit 0 g0 of
        (rc, g) \<Rightarrow>
          if rc \<noteq> 0 then Inl NullResult
          else
            let buffs = bufferDict g bytes in
            if length buffs > 0 then
              (let ret = last buffs;
                   buffs = butlast buffs
               in Inr (ret, g))
            else
              let buff = \<lparr>size_b = bytes, handle = created,
                          state_b = D3D12_RESOURCE_STATE_COMMON\<rparr>;
                  g1 = g\<lparr>device := device g @ [CreateGPUOnlyResource bytes]\<rparr>
              in if handle buff = None then Inl AssertionFailed
                 else Inr (length (buffers g1), g1\<lparr>buffers := buffers g1 @ [buff]\<rparr>))"

definition dxReleaseBuffer :: "nat \<Rightarrow> dx_globals \<Rightarrow> error + dx_globals" where
  "dxReleaseBuffer dptr g =
     (if length (buffers g) \<le> dptr then Inl OutOfRange
      else
        let sz = size_b (buffers g ! dptr)
        in Inr (g\<lparr>bufferDict := (bufferDict g)(sz := bufferDict g sz @ [dptr])\<rparr>))"

subsection \<open>Kernel registry\<close>

text \<open>
  \<open>dxCreateShader\<close>. \<open>read_file\<close> gives the bytes of the file a \<open>file://\<close> source names
  (\<open>None\<close> when the stream fails), \<open>compiles\<close> says whether the compiler returns
  bytecode, \<open>driver_ok\<close> whether the three calls under \<open>IFE\<close> succeed.
\<close>

definition dxCreateShader ::
  "(string \<Rightarrow> string option) \<Rightarrow> (string \<Rightarrow> bool) \<Rightarrow> bool \<Rightarrow> string \<Rightarrow> dx_globals
     \<Rightarrow> error + dx_shader_t \<times> dx_globals" where
  "dxCreateShader read_file compiles driver_ok src0 g0 =
     (case dxInit 0 g0 of
        (rc, g) \<Rightarrow>
          if rc \<noteq> 0 then Inl NullResult
          else
            (case (if take 7 src0 = ''file://'' then read_file (drop 7 src0) else Some src0) of
               None \<Rightarrow> Inl NullResult
             | Some src \<Rightarrow>
                 if \<not> compiles src then Inl NullResult
                 else
                   (case parse_shader src of
                      Inl e \<Rightarrow> Inl e
                    | Inr hdl \<Rightarrow>
                        if \<not> driver_ok then Inl DriverFailure
                        else
                          Inr (hdl, g\<lparr>device := device g @
                                 [CreateRootSignature (length (inputs hdl)) (length (outputs hdl)),
                                  CreateComputePipelineState]\<rparr>))))"

text \<open>
  \<open>c_str()\<close> ends at the first NUL byte. \<open>strncpy_s(dest, src, count)\<close> on an array of
  \<open>size\<close> bytes copies the lesser of \<open>count\<close> and the length of \<open>src\<close> bytes when they
  leave room for the terminating NUL, and invokes the invalid-parameter handler otherwise.
\<close>

definition MAX_PATH :: nat where
  "MAX_PATH = 260"

definition c_str :: "string \<Rightarrow> string" where
  "c_str str = takeWhile (\<lambda>c. c \<noteq> CHR 0x00) str"

definition strncpy_s :: "nat \<Rightarrow> string \<Rightarrow> nat \<Rightarrow> error + string" where
  "strncpy_s size_d src count =
     (if min count (length src) < size_d then Inr (take (min count (length src)) src)
      else Inl InvalidParameter)"

text \<open>
  \<open>dxGetShaderArgumentProperty\<close>. \<open>arg_index\<close> is compared as a \<open>size_t\<close>. The three
  flags say which of the pointers \<open>num_elements\<close>, \<open>type_size\<close> and \<open>dtype_name\<close> are not
  null; the result holds what is stored through each of them. The name goes through the
  static buffer \<open>lastDtypeName[MAX_PATH]\<close>.
\<close>

definition dxGetShaderArgumentProperty ::
  "dx_shader_t \<Rightarrow> int \<Rightarrow> bool \<Rightarrow> bool \<Rightarrow> bool
     \<Rightarrow> error + 64 word option \<times> nat option \<times> string option" where
  "dxGetShaderArgumentProperty hdl arg_index num_elements type_size dtype_name =
     (let i = size_t_of_int arg_index in
      case (if i < length (inputs hdl) then Inr (inputs hdl ! i)
            else if length (outputs hdl) \<le> i - length (inputs hdl) then Inl OutOfRange
            else Inr (outputs hdl ! (i - length (inputs hdl)))) of
        Inl e \<Rightarrow> Inl e
      | Inr t \<Rightarrow>
          (case TypeSize t of
             Inl e \<Rightarrow> Inl e
           | Inr tsize \<Rightarrow>
               (case (if dtype_name
                      then map_sum id Some (strncpy_s MAX_PATH (c_str (dtype t)) MAX_PATH)
                      else Inr None) of
                  Inl e \<Rightarrow> Inl e
                | Inr nm \<Rightarrow>
                    Inr (if num_elements then Some (NumElements t) else None,
                         if type_size then Some tsize else None,
                         nm))))"

subsection \<open>Command streams\<close>

text \<open>
  \<open>use_descriptor_heap\<close> says whether the file is built with \<open>_USE_DESCRIPTOR_HEAP_\<close>.
  The calls of the optional \<open>_USE_GPU_TIMER_\<close> build around \<open>Dispatch\<close> are left out.
\<close>

definition MAX_HEAP_SIZE :: nat where
  "MAX_HEAP_SIZE = 65536"

definition Reset :: "bool \<Rightarrow> dx_stream_t \<Rightarrow> dx_stream_t" where
  "Reset use_descriptor_heap s =
     s\<lparr>pCmdList := pCmdList s @ [CmdAllocator_Reset, CmdList_Reset]
                      @ (if use_descriptor_heap then [SetDescriptorHeaps] else []),
       descIdxOffset := 0,
       state_s := INRECORD,
       queryHeapsNeedToResolve := []\<rparr>"

text \<open>
  \<open>dxCreateStream\<close>; the state of a new \<open>dx_stream_t\<close> has no initialiser and is first
  written by \<open>Reset\<close>.
\<close>

definition dxCreateStream ::
  "bool \<Rightarrow> bool \<Rightarrow> dx_globals \<Rightarrow> error + dx_stream_t \<times> dx_globals" where
  "dxCreateStream use_descriptor_heap driver_ok g0 =
     (case dxInit 0 g0 of
        (rc, g) \<Rightarrow>
          if rc \<noteq> 0 then Inl NullResult
          else if \<not> driver_ok then Inl DriverFailure
          else
            Inr (Reset use_descriptor_heap
                   \<lparr>fenceVal = 0, pCmdList = [Close], state_s = INRECORD, descIdxOffset = 0,
                    queryHeapsNeedToResolve = []\<rparr>,
                 g\<lparr>device := device g @ [CreateCommandAllocator, CreateCommandList]
                      @ (if use_descriptor_heap then [CreateDescriptorHeap MAX_HEAP_SIZE]
                         else [])\<rparr>))"

text \<open>The loop of \<open>dxSubmitStream\<close> over the heaps to resolve; \<open>globalQueryHeaps[q]\<close> is unchecked.\<close>

fun resolve_heaps ::
  "dx_query_heap_t list \<Rightarrow> nat list \<Rightarrow> command list \<Rightarrow> error + command list" where
  "resolve_heaps heaps [] cl = Inr cl"
| "resolve_heaps heaps (q # qs) cl =
     (if length heaps \<le> q then Inl OutOfRange
      else resolve_heaps heaps qs (cl @ [ResolveQueryData q (totSize (heaps ! q))]))"

text \<open>\<open>dxSubmitStream\<close>; \<open>signalled\<close> is the value \<open>device.SignalFence()\<close> returns.\<close>

definition dxSubmitStream ::
  "64 word \<Rightarrow> dx_stream_t \<Rightarrow> dx_globals \<Rightarrow> error + dx_stream_t \<times> dx_globals" where
  "dxSubmitStream signalled s g =
     (if state_s s = INRECORD then
        (case resolve_heaps (globalQueryHeaps g) (queryHeapsNeedToResolve s) (pCmdList s) of
           Inl e \<Rightarrow> Inl e
         | Inr cl \<Rightarrow>
             Inr (s\<lparr>state_s := SUBMITTED, pCmdList := cl @ [Close], fenceVal := signalled\<rparr>,
                  g\<lparr>device := device g @ [ExecuteCommandLists (cl @ [Close]), SignalFence]\<rparr>))
      else Inr (s, g))"

definition dxSynchronize ::
  "bool \<Rightarrow> 64 word \<Rightarrow> dx_stream_t \<Rightarrow> dx_globals \<Rightarrow> error + dx_stream_t \<times> dx_globals" where
  "dxSynchronize use_descriptor_heap signalled s g =
     (case (if state_s s = INRECORD then dxSubmitStream signalled s g else Inr (s, g)) of
        Inl e \<Rightarrow> Inl e
      | Inr (s1, g1) \<Rightarrow>
          Inr (Reset use_descriptor_heap s1,
               g1\<lparr>device := device g1 @ [WaitForFence (fenceVal s1)]\<rparr>))"

text \<open>
  The two loops of \<open>dxLaunchShaderAsync\<close> that transition the buffers: each pointer is
  followed into \<open>buffers\<close>, and the buffer is written back where it was read.
\<close>

fun transition_buffers ::
  "D3D12_RESOURCE_STATES \<Rightarrow> nat list \<Rightarrow> command list \<Rightarrow> dx_buffer_t list
     \<Rightarrow> error + command list \<times> dx_buffer_t list" where
  "transition_buffers dst [] cl store = Inr (cl, store)"
| "transition_buffers dst (p # ps) cl store =
     (if length store \<le> p then Inl OutOfRange
      else
        (case StateTransition cl dst (store ! p) of
           (b', cl') \<Rightarrow> transition_buffers dst ps cl' (store[p := b'])))"

text \<open>
  The two loops that write one view per argument into the table, from slot \<open>slot\<close> on;
  \<open>TypeSize\<close> may throw in the middle. A slot is counted from the start of the table:
  the code turns it into an address with the increment the device reports.
\<close>

fun create_views ::
  "bool \<Rightarrow> dx_tensor_t list \<Rightarrow> ID3D12Resource option list \<Rightarrow> nat
     \<Rightarrow> error + device_call list" where
  "create_views uav [] hs slot = Inr []"
| "create_views uav (t # ts) hs slot =
     (case TypeSize t of
        Inl e \<Rightarrow> Inl e
      | Inr tsize \<Rightarrow>
          (case hs of
             [] \<Rightarrow> Inl OutOfRange
           | h # hs' \<Rightarrow>
               (case create_views uav ts hs' (slot + 1) of
                  Inl e \<Rightarrow> Inl e
                | Inr calls \<Rightarrow>
                    Inr ((if uav
                          then CreateUnorderedAccessView h (ucast (NumElements t))
                                 (word_of_nat tsize) slot
                          else CreateShaderResourceView h (ucast (NumElements t))
                                 (word_of_nat tsize) slot) # calls))))"

text \<open>The root views of the build without a descriptor heap.\<close>

definition root_views :: "ID3D12Resource option list \<Rightarrow> ID3D12Resource option list \<Rightarrow> command list" where
  "root_views ins outs =
     map (\<lambda>(i, h). SetComputeRootShaderResourceView (word_of_nat i) h) (enumerate 0 ins)
     @ map (\<lambda>(i, h). SetComputeRootUnorderedAccessView (word_of_nat (length ins + i)) h)
         (enumerate 0 outs)"

text \<open>
  \<open>dxLaunchShaderAsync\<close>; \<open>bufs\<close> is the array of buffer pointers, read at the indices
  below the number of arguments.
\<close>

definition dxLaunchShaderAsync ::
  "bool \<Rightarrow> dx_shader_t \<Rightarrow> nat list \<Rightarrow> dx_stream_t \<Rightarrow> dx_globals
     \<Rightarrow> error + dx_stream_t \<times> dx_globals" where
  "dxLaunchShaderAsync use_descriptor_heap hdl bufs s g =
     (if state_s s \<noteq> INRECORD then Inl AssertionFailed
      else if length bufs < length (inputs hdl) + length (outputs hdl) then Inl OutOfRange
      else
        let n_in = length (inputs hdl);
            n_out = length (outputs hdl);
            in_ptrs = take n_in bufs;
            out_ptrs = take n_out (drop n_in bufs)
        in
        (case transition_buffers D3D12_RESOURCE_STATE_NON_PIXEL_SHADER_RESOURCE in_ptrs
                (pCmdList s) (buffers g) of
           Inl e \<Rightarrow> Inl e
         | Inr (cl1, store1) \<Rightarrow>
        (case transition_buffers D3D12_RESOURCE_STATE_UNORDERED_ACCESS out_ptrs cl1 store1 of
           Inl e \<Rightarrow> Inl e
         | Inr (cl2, store2) \<Rightarrow>
             let cl3 = cl2 @ [SetComputeRootSignature, SetPipelineState];
                 in_handles = map (\<lambda>p. handle (store2 ! p)) in_ptrs;
                 out_handles = map (\<lambda>p. handle (store2 ! p)) out_ptrs;
                 launch = (case block hdl of (x, y, z) \<Rightarrow> Dispatch x y z)
             in
             if use_descriptor_heap then
               (let offset = unat (descIdxOffset s);
                    s1 = s\<lparr>descIdxOffset := descIdxOffset s + (word_of_nat n_in + word_of_nat n_out)\<rparr>
                in
                (case create_views False (inputs hdl) in_handles offset of
                   Inl e \<Rightarrow> Inl e
                 | Inr srvs \<Rightarrow>
                (case create_views True (outputs hdl) out_handles (offset + n_in) of
                   Inl e \<Rightarrow> Inl e
                 | Inr uavs \<Rightarrow>
                     Inr (s1\<lparr>pCmdList := cl3 @ [SetComputeRootDescriptorTable offset, launch]\<rparr>,
                          g\<lparr>buffers := store2, device := device g @ srvs @ uavs\<rparr>))))
             else
               Inr (s\<lparr>pCmdList := cl3 @ root_views in_handles out_handles @ [launch]\<rparr>,
                    g\<lparr>buffers := store2\<rparr>))))"

subsection \<open>Query pool\<close>

definition MAX_QUERY_NUM :: "32 word" where
  "MAX_QUERY_NUM = 1024"

text \<open>
  \<open>dxCreateQuery\<close>; a \<open>dx_query_t*\<close> is known by the pair it points to. \<open>driver_ok\<close> says
  whether the two calls under \<open>IFE\<close> succeed when a heap is created.
\<close>

definition dxCreateQuery :: "bool \<Rightarrow> dx_globals \<Rightarrow> error + dx_query_t \<times> dx_globals" where
  "dxCreateQuery driver_ok g0 =
     (case dxInit 0 g0 of
        (rc, g) \<Rightarrow>
          if rc \<noteq> 0 then Inl NullResult
          else if length (globalFreeQueries g) > 0 then
            Inr (last (globalFreeQueries g),
                 g\<lparr>globalFreeQueries := butlast (globalFreeQueries g)\<rparr>)
          else
            let grow = (length (globalQueryHeaps g) = 0
                        \<or> totSize (last (globalQueryHeaps g)) \<le> curIdx (last (globalQueryHeaps g)))
            in
            if grow \<and> \<not> driver_ok then Inl DriverFailure
            else
              let g1 = (if grow then
                          g\<lparr>globalQueryHeaps := globalQueryHeaps g
                               @ [\<lparr>curIdx = 0, totSize = MAX_QUERY_NUM\<rparr>],
                            device := device g
                               @ [CreateCommittedResource (8 * unat MAX_QUERY_NUM),
                                  CreateQueryHeap MAX_QUERY_NUM]\<rparr>
                        else g);
                  heaps = globalQueryHeaps g1;
                  ret = \<lparr>heapIdx = word_of_nat (length heaps) - 1,
                         queryIdxInHeap = curIdx (last heaps)\<rparr>
              in Inr (ret,
                      g1\<lparr>globalQueryHeaps :=
                           butlast heaps @ [(last heaps)\<lparr>curIdx := curIdx (last heaps) + 1\<rparr>]\<rparr>))"

text \<open>\<open>dxDestroyQuery\<close>; the null pointer is \<open>None\<close>.\<close>

definition dxDestroyQuery :: "dx_query_t option \<Rightarrow> dx_globals \<Rightarrow> dx_globals" where
  "dxDestroyQuery query g =
     (case query of
        None \<Rightarrow> g
      | Some q \<Rightarrow> g\<lparr>globalFreeQueries := globalFreeQueries g @ [q]\<rparr>)"

definition dxRecordQuery ::
  "dx_query_t \<Rightarrow> dx_stream_t \<Rightarrow> dx_globals \<Rightarrow> error + dx_stream_t" where
  "dxRecordQuery pQuery s g =
     (if length (globalQueryHeaps g) \<le> unat (heapIdx pQuery) then Inl OutOfRange
      else
        let s1 = s\<lparr>pCmdList := pCmdList s
                      @ [EndQuery (unat (heapIdx pQuery)) (queryIdxInHeap pQuery)]\<rparr>
        in if unat (heapIdx pQuery) \<in> set (queryHeapsNeedToResolve s) then Inr s1
           else Inr (s1\<lparr>queryHeapsNeedToResolve :=
                          queryHeapsNeedToResolve s @ [unat (heapIdx pQuery)]\<rparr>))"

subsection \<open>What the claims observe\<close>

text \<open>The number of command lists handed to the execution queue, read off the device log.\<close>

fun queue_submissions :: "device_call list \<Rightarrow> nat" where
  "queue_submissions [] = 0"
| "queue_submissions (ExecuteCommandLists cl # calls) = Suc (queue_submissions calls)"
| "queue_submissions (c # calls) = queue_submissions calls"

text \<open>Every pending heap index of a stream names a heap that exists.\<close>

definition pending_heaps_exist :: "dx_stream_t \<Rightarrow> dx_globals \<Rightarrow> bool" where
  "pending_heaps_exist s g \<longleftrightarrow>
     list_all (\<lambda>q. q < length (globalQueryHeaps g)) (queryHeapsNeedToResolve s)"

text \<open>\<open>n\<close> calls of \<open>dxCreateQuery\<close> in a row, every driver call succeeding.\<close>

fun dxCreateQuery_times :: "nat \<Rightarrow> dx_globals \<Rightarrow> error + dx_query_t list \<times> dx_globals" where
  "dxCreateQuery_times 0 g = Inr ([], g)"
| "dxCreateQuery_times (Suc n) g =
     (case dxCreateQuery_times n g of
        Inl e \<Rightarrow> Inl e
      | Inr (qs, g1) \<Rightarrow>
          (case dxCreateQuery True g1 of
             Inl e \<Rightarrow> Inl e
           | Inr (q, g2) \<Rightarrow> Inr (qs @ [q], g2)))"

text \<open>
  The trailing decimal numeral of a name, as the claims speak of it: the digits at the end
  of the name, and their value (0 when there is none).
\<close>

definition trailing_digits :: "string \<Rightarrow> string" where
  "trailing_digits s = rev (takeWhile isdigit (rev s))"

definition decimal_value :: "string \<Rightarrow> nat" where
  "decimal_value ds = foldl (\<lambda>acc c. 10 * acc + (of_char c - 48)) 0 ds"

definition trailing_numeral :: "string \<Rightarrow> nat" where
  "trailing_numeral s = decimal_value (trailing_digits s)"

text \<open>What \<open>TypeSize\<close> does with the bits \<open>atoi\<close> gives it.\<close>

definition bits_result :: "int \<Rightarrow> error + nat" where
  "bits_result bits =
     (if c_rem bits 8 > 0 then
        Inl (RuntimeError ''Data type bitsize must align with 8-bit byte type.'')
      else Inr (size_t_of_int (c_div bits 8)))"

section \<open>Resource state tracking\<close>

lemma StateTransition_handle: "handle (fst (StateTransition cl d b)) = handle b"
  by (simp add: StateTransition_def)

lemma StateTransition_state: "state_b (fst (StateTransition cl d b)) = d"
  by (simp add: StateTransition_def)

lemma StateTransition_calls_handle:
  "handle (fst (StateTransition_calls cl ds b)) = handle b"
proof (induction ds arbitrary: cl b)
  case Nil
  show ?case by simp
next
  case (Cons d ds)
  obtain b' cl' where st: "StateTransition cl d b = (b', cl')"
    by (cases "StateTransition cl d b")
  have "handle b' = handle b"
    using StateTransition_handle [of cl d b] st by simp
  with Cons.IH [of cl' b'] st show ?case by simp
qed

text \<open>
  Claim C1. Take any buffer, any command list and any sequence of transition calls already
  made; the next call, to target state \<open>d\<close>, appends a barrier exactly when \<open>d\<close> differs
  from the recorded state or \<open>d\<close> is the unordered-access state. When \<open>d\<close> differs, the one
  barrier appended is the transition from the recorded state to \<open>d\<close> and \<open>d\<close> becomes the
  recorded state; when \<open>d\<close> is the recorded state and is unordered access, the one barrier
  appended is the UAV barrier and the buffer is unchanged; otherwise nothing is appended
  and the buffer is unchanged.
\<close>

theorem StateTransition_barrier_rule:
  assumes before: "StateTransition_calls cl0 ds b0 = (b, cl)"
      and call: "StateTransition cl d b = (b', cl')"
  shows "((\<exists>bar. cl' = cl @ [ResourceBarrier bar]) \<longleftrightarrow>
            (d \<noteq> state_b b \<or> d = D3D12_RESOURCE_STATE_UNORDERED_ACCESS))
       \<and> (d \<noteq> state_b b \<longrightarrow>
            cl' = cl @ [ResourceBarrier (TRANSITION (handle b0) (state_b b) d)]
            \<and> b' = b\<lparr>state_b := d\<rparr>)
       \<and> (d = state_b b \<and> d = D3D12_RESOURCE_STATE_UNORDERED_ACCESS \<longrightarrow>
            cl' = cl @ [ResourceBarrier (UAV (handle b0))] \<and> b' = b)
       \<and> (d = state_b b \<and> d \<noteq> D3D12_RESOURCE_STATE_UNORDERED_ACCESS \<longrightarrow>
            cl' = cl \<and> b' = b)"
proof -
  have h: "handle b = handle b0"
    using StateTransition_calls_handle [of cl0 ds b0] before by simp
  show ?thesis
    using call h by (auto simp: StateTransition_def split: if_splits)
qed

theorem StateTransition_barrier_rule_witness:
  "StateTransition_calls [] [D3D12_RESOURCE_STATE_UNORDERED_ACCESS]
       \<lparr>size_b = 16, handle = Some 0, state_b = D3D12_RESOURCE_STATE_COMMON\<rparr>
     = (\<lparr>size_b = 16, handle = Some 0, state_b = D3D12_RESOURCE_STATE_UNORDERED_ACCESS\<rparr>,
        [ResourceBarrier (TRANSITION (Some 0) D3D12_RESOURCE_STATE_COMMON
           D3D12_RESOURCE_STATE_UNORDERED_ACCESS)])
   \<and> StateTransition
       [ResourceBarrier (TRANSITION (Some 0) D3D12_RESOURCE_STATE_COMMON
           D3D12_RESOURCE_STATE_UNORDERED_ACCESS)]
       D3D12_RESOURCE_STATE_UNORDERED_ACCESS
       \<lparr>size_b = 16, handle = Some 0, state_b = D3D12_RESOURCE_STATE_UNORDERED_ACCESS\<rparr>
     = (\<lparr>size_b = 16, handle = Some 0, state_b = D3D12_RESOURCE_STATE_UNORDERED_ACCESS\<rparr>,
        [ResourceBarrier (TRANSITION (Some 0) D3D12_RESOURCE_STATE_COMMON
           D3D12_RESOURCE_STATE_UNORDERED_ACCESS),
         ResourceBarrier (UAV (Some 0))])"
proof -
  let ?fresh = "\<lparr>size_b = 16, handle = Some 0, state_b = D3D12_RESOURCE_STATE_COMMON\<rparr>"
  let ?written =
    "\<lparr>size_b = 16, handle = Some 0, state_b = D3D12_RESOURCE_STATE_UNORDERED_ACCESS\<rparr>"
  let ?cl = "[ResourceBarrier (TRANSITION (Some 0) D3D12_RESOURCE_STATE_COMMON
           D3D12_RESOURCE_STATE_UNORDERED_ACCESS)]"
  have before:
    "StateTransition_calls [] [D3D12_RESOURCE_STATE_UNORDERED_ACCESS] ?fresh = (?written, ?cl)"
    by (simp add: StateTransition_def D3D12_RESOURCE_STATE_COMMON_def
        D3D12_RESOURCE_STATE_UNORDERED_ACCESS_def)
  obtain b' cl' where
    call: "StateTransition ?cl D3D12_RESOURCE_STATE_UNORDERED_ACCESS ?written = (b', cl')"
    by (cases "StateTransition ?cl D3D12_RESOURCE_STATE_UNORDERED_ACCESS ?written")
  from StateTransition_barrier_rule [OF before call]
  have "cl' = ?cl @ [ResourceBarrier (UAV (Some 0))] \<and> b' = ?written"
    by simp
  with before call show ?thesis by simp
qed

section \<open>Command streams: submit and synchronize\<close>

text \<open>
  The pending heap indices of a stream name heaps that exist: a new stream has none,
  \<open>dxRecordQuery\<close> adds only the index of a heap it has just used, the heap list never
  shrinks, and no other entry point adds an index.
\<close>

lemma pending_heaps_exist_mono:
  "pending_heaps_exist s g \<Longrightarrow> length (globalQueryHeaps g) \<le> length (globalQueryHeaps g') \<Longrightarrow>
   pending_heaps_exist s g'"
  by (auto simp: pending_heaps_exist_def list_all_iff)

lemma dxCreateStream_pending:
  "dxCreateStream use_descriptor_heap driver_ok g = Inr (s, g') \<Longrightarrow>
   pending_heaps_exist s g' \<and> state_s s = INRECORD"
  by (auto simp: dxCreateStream_def dxInit_def Reset_def pending_heaps_exist_def
      split: if_splits)

lemma dxRecordQuery_pending:
  "pending_heaps_exist s g \<Longrightarrow> dxRecordQuery pQuery s g = Inr s' \<Longrightarrow>
   pending_heaps_exist s' g"
  by (auto simp: dxRecordQuery_def pending_heaps_exist_def Let_def split: if_splits)

lemma dxCreateQuery_heaps_grow:
  "dxCreateQuery driver_ok g = Inr (q, g') \<Longrightarrow>
   length (globalQueryHeaps g) \<le> length (globalQueryHeaps g')"
  by (auto simp: dxCreateQuery_def dxInit_def Let_def split: if_splits)

lemma dxCreateQuery_pending:
  "pending_heaps_exist s g \<Longrightarrow> dxCreateQuery driver_ok g = Inr (q, g') \<Longrightarrow>
   pending_heaps_exist s g'"
  by (blast intro: pending_heaps_exist_mono dxCreateQuery_heaps_grow)

lemma dxSubmitStream_pending:
  "pending_heaps_exist s g \<Longrightarrow> dxSubmitStream v s g = Inr (s', g') \<Longrightarrow>
   pending_heaps_exist s' g'"
  by (auto simp: dxSubmitStream_def pending_heaps_exist_def split: if_splits sum.splits)

lemma dxSynchronize_pending:
  "dxSynchronize use_descriptor_heap v s g = Inr (s', g') \<Longrightarrow> pending_heaps_exist s' g'"
  by (auto simp: dxSynchronize_def Reset_def pending_heaps_exist_def
      split: if_splits sum.splits)

lemma dxLaunchShaderAsync_pending:
  "pending_heaps_exist s g \<Longrightarrow>
   dxLaunchShaderAsync use_descriptor_heap hdl bufs s g = Inr (s', g') \<Longrightarrow>
   pending_heaps_exist s' g'"
  by (auto simp: dxLaunchShaderAsync_def pending_heaps_exist_def Let_def
      split: if_splits sum.splits prod.splits)

lemma queue_submissions_append:
  "queue_submissions (xs @ ys) = queue_submissions xs + queue_submissions ys"
  by (induction xs rule: queue_submissions.induct) simp_all

lemma resolve_heaps_ok:
  "list_all (\<lambda>q. q < length heaps) qs \<Longrightarrow>
   resolve_heaps heaps qs cl = Inr (cl @ map (\<lambda>q. ResolveQueryData q (totSize (heaps ! q))) qs)"
  by (induction qs arbitrary: cl) simp_all

lemma dxSubmitStream_recording:
  assumes "pending_heaps_exist s g" and "state_s s = INRECORD"
  shows "dxSubmitStream v s g =
     Inr (s\<lparr>state_s := SUBMITTED,
            pCmdList := pCmdList s
               @ map (\<lambda>q. ResolveQueryData q (totSize (globalQueryHeaps g ! q)))
                   (queryHeapsNeedToResolve s) @ [Close],
            fenceVal := v\<rparr>,
          g\<lparr>device := device g
               @ [ExecuteCommandLists (pCmdList s
                    @ map (\<lambda>q. ResolveQueryData q (totSize (globalQueryHeaps g ! q)))
                        (queryHeapsNeedToResolve s) @ [Close]),
                  SignalFence]\<rparr>)"
  using assms by (simp add: dxSubmitStream_def pending_heaps_exist_def resolve_heaps_ok)

lemma dxSubmitStream_submitted: "state_s s = SUBMITTED \<Longrightarrow> dxSubmitStream v s g = Inr (s, g)"
  by (simp add: dxSubmitStream_def)

text \<open>
  Claim C4. On a stream whose state is \<open>SUBMITTED\<close>, \<open>dxSubmitStream\<close> returns the stream
  and the globals as they were: nothing is appended to the command list (no resolve, no
  close), nothing to the device log (no queue submission, no fence signal), and the stored
  fence value stays. A first call returns whenever the pending heap indices name heaps that
  exist and leaves the stream \<open>SUBMITTED\<close>, so a second call right after it does nothing,
  and the two calls together hand the queue one command list when the stream was recording
  (none when it was submitted already).
\<close>

theorem dxSubmitStream_idempotent:
  "(state_s s = SUBMITTED \<longrightarrow> dxSubmitStream v s g = Inr (s, g))
   \<and> (pending_heaps_exist s g \<longrightarrow>
        (\<exists>s1 g1. dxSubmitStream v s g = Inr (s1, g1)
           \<and> state_s s1 = SUBMITTED
           \<and> dxSubmitStream w s1 g1 = Inr (s1, g1)
           \<and> queue_submissions (device g1) =
               queue_submissions (device g) + (if state_s s = INRECORD then 1 else 0)))"
proof (intro conjI impI)
  assume "state_s s = SUBMITTED"
  then show "dxSubmitStream v s g = Inr (s, g)" by (rule dxSubmitStream_submitted)
next
  assume ok: "pending_heaps_exist s g"
  show "\<exists>s1 g1. dxSubmitStream v s g = Inr (s1, g1)
           \<and> state_s s1 = SUBMITTED
           \<and> dxSubmitStream w s1 g1 = Inr (s1, g1)
           \<and> queue_submissions (device g1) =
               queue_submissions (device g) + (if state_s s = INRECORD then 1 else 0)"
  proof (cases "state_s s")
    case INRECORD
    show ?thesis
      by (simp add: dxSubmitStream_recording [OF ok INRECORD] INRECORD
          dxSubmitStream_submitted queue_submissions_append)
  next
    case SUBMITTED
    then show ?thesis by (simp add: dxSubmitStream_submitted)
  qed
qed

theorem dxSubmitStream_idempotent_witness:
  "pending_heaps_exist
     \<lparr>fenceVal = 0, pCmdList = [CmdAllocator_Reset, CmdList_Reset], state_s = INRECORD,
      descIdxOffset = 0, queryHeapsNeedToResolve = []\<rparr> initial_globals
   \<and> dxSubmitStream 5
       \<lparr>fenceVal = 0, pCmdList = [CmdAllocator_Reset, CmdList_Reset], state_s = INRECORD,
        descIdxOffset = 0, queryHeapsNeedToResolve = []\<rparr> initial_globals
     = Inr (\<lparr>fenceVal = 5, pCmdList = [CmdAllocator_Reset, CmdList_Reset, Close],
             state_s = SUBMITTED, descIdxOffset = 0, queryHeapsNeedToResolve = []\<rparr>,
            initial_globals\<lparr>device :=
              [ExecuteCommandLists [CmdAllocator_Reset, CmdList_Reset, Close], SignalFence]\<rparr>)
   \<and> dxSubmitStream 6
       \<lparr>fenceVal = 5, pCmdList = [CmdAllocator_Reset, CmdList_Reset, Close],
        state_s = SUBMITTED, descIdxOffset = 0, queryHeapsNeedToResolve = []\<rparr>
       (initial_globals\<lparr>device :=
              [ExecuteCommandLists [CmdAllocator_Reset, CmdList_Reset, Close], SignalFence]\<rparr>)
     = Inr (\<lparr>fenceVal = 5, pCmdList = [CmdAllocator_Reset, CmdList_Reset, Close],
             state_s = SUBMITTED, descIdxOffset = 0, queryHeapsNeedToResolve = []\<rparr>,
            initial_globals\<lparr>device :=
              [ExecuteCommandLists [CmdAllocator_Reset, CmdList_Reset, Close], SignalFence]\<rparr>)"
proof -
  let ?s = "\<lparr>fenceVal = 0, pCmdList = [CmdAllocator_Reset, CmdList_Reset], state_s = INRECORD,
      descIdxOffset = 0, queryHeapsNeedToResolve = []\<rparr>"
  have ok: "pending_heaps_exist ?s initial_globals"
    by (simp add: pending_heaps_exist_def)
  have first: "dxSubmitStream 5 ?s initial_globals
     = Inr (\<lparr>fenceVal = 5, pCmdList = [CmdAllocator_Reset, CmdList_Reset, Close],
             state_s = SUBMITTED, descIdxOffset = 0, queryHeapsNeedToResolve = []\<rparr>,
            initial_globals\<lparr>device :=
              [ExecuteCommandLists [CmdAllocator_Reset, CmdList_Reset, Close], SignalFence]\<rparr>)"
    by (simp add: dxSubmitStream_def initial_globals_def)
  from dxSubmitStream_idempotent [of ?s 5 initial_globals 6] ok first
  show ?thesis by simp
qed

text \<open>
  Claim C5. For a stream in either state whose pending heap indices name heaps that exist
  (the indices \<open>dxRecordQuery\<close> stores always do), \<open>dxSynchronize\<close> returns; it submits
  first exactly when the stream is recording, then asks the device to wait for the fence
  value stored on the stream (the one just signalled, or the one of the earlier submit),
  and hands back the stream in state \<open>INRECORD\<close> with the table cursor 0, no pending heap,
  and the allocator and command list reset as the last calls on them.
\<close>

theorem dxSynchronize_resets:
  assumes ok: "pending_heaps_exist s g"
  shows "\<exists>s' g' submitted.
           dxSynchronize use_descriptor_heap v s g = Inr (s', g')
         \<and> state_s s' = INRECORD
         \<and> descIdxOffset s' = 0
         \<and> queryHeapsNeedToResolve s' = []
         \<and> (\<exists>cl. pCmdList s' = cl @ [CmdAllocator_Reset, CmdList_Reset]
                       @ (if use_descriptor_heap then [SetDescriptorHeaps] else []))
         \<and> fenceVal s' = (if state_s s = INRECORD then v else fenceVal s)
         \<and> device g' = device g @ submitted @ [WaitForFence (fenceVal s')]
         \<and> (if state_s s = INRECORD
             then \<exists>cl. submitted = [ExecuteCommandLists (pCmdList s @ cl @ [Close]), SignalFence]
             else submitted = [])"
proof (cases "state_s s")
  case INRECORD
  show ?thesis
    by (simp add: dxSynchronize_def dxSubmitStream_recording [OF ok INRECORD] INRECORD Reset_def)
next
  case SUBMITTED
  then show ?thesis
    by (simp add: dxSynchronize_def Reset_def)
qed

theorem dxSynchronize_resets_witness:
  "pending_heaps_exist
     \<lparr>fenceVal = 0, pCmdList = [CmdAllocator_Reset, CmdList_Reset], state_s = INRECORD,
      descIdxOffset = 4, queryHeapsNeedToResolve = []\<rparr> initial_globals
   \<and> dxSynchronize False 5
       \<lparr>fenceVal = 0, pCmdList = [CmdAllocator_Reset, CmdList_Reset], state_s = INRECORD,
        descIdxOffset = 4, queryHeapsNeedToResolve = []\<rparr> initial_globals
     = Inr (\<lparr>fenceVal = 5,
             pCmdList = [CmdAllocator_Reset, CmdList_Reset, Close, CmdAllocator_Reset,
                         CmdList_Reset],
             state_s = INRECORD, descIdxOffset = 0, queryHeapsNeedToResolve = []\<rparr>,
            initial_globals\<lparr>device :=
              [ExecuteCommandLists [CmdAllocator_Reset, CmdList_Reset, Close], SignalFence,
               WaitForFence 5]\<rparr>)"
proof -
  let ?s = "\<lparr>fenceVal = 0, pCmdList = [CmdAllocator_Reset, CmdList_Reset], state_s = INRECORD,
      descIdxOffset = 4, queryHeapsNeedToResolve = []\<rparr>"
  have ok: "pending_heaps_exist ?s initial_globals"
    by (simp add: pending_heaps_exist_def)
  from dxSynchronize_resets [OF ok, of False 5]
  obtain s' g' where "dxSynchronize False 5 ?s initial_globals = Inr (s', g')"
    by blast
  moreover have "dxSynchronize False 5 ?s initial_globals
     = Inr (\<lparr>fenceVal = 5,
             pCmdList = [CmdAllocator_Reset, CmdList_Reset, Close, CmdAllocator_Reset,
                         CmdList_Reset],
             state_s = INRECORD, descIdxOffset = 0, queryHeapsNeedToResolve = []\<rparr>,
            initial_globals\<lparr>device :=
              [ExecuteCommandLists [CmdAllocator_Reset, CmdList_Reset, Close], SignalFence,
               WaitForFence 5]\<rparr>)"
    by (simp add: dxSynchronize_def dxSubmitStream_def Reset_def initial_globals_def)
  ultimately show ?thesis using ok by simp
qed

section \<open>Buffer pool\<close>

lemma dxAllocateBuffer_reuse:
  assumes "bufferDict g bytes \<noteq> []"
  shows "dxAllocateBuffer created bytes g =
           Inr (last (bufferDict g bytes), snd (dxInit 0 g))"
  using assms by (simp add: dxAllocateBuffer_def dxInit_def Let_def)

lemma dxAllocateBuffer_free_list:
  "dxAllocateBuffer created bytes g = Inr (p, g') \<Longrightarrow> bufferDict g' = bufferDict g"
  by (auto simp: dxAllocateBuffer_def dxInit_def Let_def split: if_splits)

lemma dxAllocateBuffer_after_release:
  assumes first: "dxAllocateBuffer c1 bytes g = Inr (b, g1)"
      and release: "dxReleaseBuffer b g1 = Inr g2"
  shows "dxAllocateBuffer c2 bytes g2 = Inr (b, snd (dxInit 0 g2))"
    and "b \<in> set (bufferDict (snd (dxInit 0 g2)) bytes)"
    and "buffers (snd (dxInit 0 g2)) = buffers g1"
    and "device (snd (dxInit 0 g2)) = device g1"
  using first release
  by (auto simp: dxAllocateBuffer_def dxReleaseBuffer_def dxInit_def Let_def
      split: if_splits)

text \<open>
  Claim C2 on the code. Allocate 16 bytes from the empty pool, release the buffer, allocate
  16 bytes again: the second allocation returns the same buffer and creates nothing on the
  device, as the claim says, but the buffer is still in the free list of size 16
  afterwards, and a third allocation hands out the same buffer once more while the second
  holder has not released it.
\<close>

theorem dxAllocateBuffer_keeps_free_list:
  "\<exists>g1 g2 g3 g4.
      dxAllocateBuffer (Some 7) 16 initial_globals = Inr (0, g1)
    \<and> dxReleaseBuffer 0 g1 = Inr g2
    \<and> bufferDict g2 16 = [0]
    \<and> dxAllocateBuffer (Some 8) 16 g2 = Inr (0, g3)
    \<and> buffers g3 = buffers g1 \<and> device g3 = device g1
    \<and> bufferDict g3 16 = [0]
    \<and> dxAllocateBuffer (Some 9) 16 g3 = Inr (0, g4)
    \<and> length (buffers g4) = 1"
  by (simp add: dxAllocateBuffer_def dxReleaseBuffer_def dxInit_def initial_globals_def Let_def)

section \<open>Query pool\<close>

lemma dxCreateQuery_recycle:
  assumes "globalFreeQueries g \<noteq> []"
  shows "dxCreateQuery ok g =
           Inr (last (globalFreeQueries g),
                (snd (dxInit 0 g))\<lparr>globalFreeQueries := butlast (globalFreeQueries g)\<rparr>)"
  using assms by (simp add: dxCreateQuery_def dxInit_def)

lemma dxCreateQuery_new_heap:
  assumes "globalFreeQueries g = []"
      and "globalQueryHeaps g = [] \<or> totSize (last (globalQueryHeaps g)) \<le> curIdx (last (globalQueryHeaps g))"
  shows "dxCreateQuery True g =
           Inr (\<lparr>heapIdx = word_of_nat (length (globalQueryHeaps g)), queryIdxInHeap = 0\<rparr>,
                (snd (dxInit 0 g))
                  \<lparr>globalQueryHeaps := globalQueryHeaps g @ [\<lparr>curIdx = 1, totSize = MAX_QUERY_NUM\<rparr>],
                   device := device (snd (dxInit 0 g))
                      @ [CreateCommittedResource (8 * unat MAX_QUERY_NUM),
                         CreateQueryHeap MAX_QUERY_NUM]\<rparr>)"
  using assms by (auto simp: dxCreateQuery_def dxInit_def Let_def)

lemma dxCreateQuery_next_slot:
  assumes "globalFreeQueries g = []" and "globalQueryHeaps g \<noteq> []"
      and "curIdx (last (globalQueryHeaps g)) < totSize (last (globalQueryHeaps g))"
  shows "dxCreateQuery ok g =
           Inr (\<lparr>heapIdx = word_of_nat (length (globalQueryHeaps g)) - 1,
                 queryIdxInHeap = curIdx (last (globalQueryHeaps g))\<rparr>,
                (snd (dxInit 0 g))
                  \<lparr>globalQueryHeaps := butlast (globalQueryHeaps g)
                     @ [(last (globalQueryHeaps g))
                          \<lparr>curIdx := curIdx (last (globalQueryHeaps g)) + 1\<rparr>]\<rparr>)"
  using assms by (auto simp: dxCreateQuery_def dxInit_def Let_def)

lemma dxCreateQuery_after_destroy:
  "dxCreateQuery ok (dxDestroyQuery (Some q) g) = Inr (q, snd (dxInit 0 g))"
  by (simp add: dxCreateQuery_def dxDestroyQuery_def dxInit_def)

lemma slot_below_capacity:
  "n < 1024 \<Longrightarrow> (word_of_nat n :: 32 word) < MAX_QUERY_NUM"
  by (simp add: MAX_QUERY_NUM_def word_less_nat_alt unat_of_nat)

lemma dxCreateQuery_times_first_heap:
  assumes "globalFreeQueries g = []" and "globalQueryHeaps g = []"
  shows "0 < n \<Longrightarrow> n \<le> 1024 \<Longrightarrow>
         \<exists>qs g'. dxCreateQuery_times n g = Inr (qs, g')
           \<and> globalFreeQueries g' = []
           \<and> globalQueryHeaps g' = [\<lparr>curIdx = word_of_nat n, totSize = MAX_QUERY_NUM\<rparr>]
           \<and> qs = map (\<lambda>i. \<lparr>heapIdx = 0, queryIdxInHeap = word_of_nat i\<rparr>) [0..<n]"
proof (induction n)
  case 0
  then show ?case by simp
next
  case (Suc m)
  show ?case
  proof (cases "m = 0")
    case True
    with assms show ?thesis
      by (simp add: dxCreateQuery_new_heap dxInit_def)
  next
    case False
    with Suc obtain qs g' where
      run: "dxCreateQuery_times m g = Inr (qs, g')" and
      free: "globalFreeQueries g' = []" and
      heaps: "globalQueryHeaps g' = [\<lparr>curIdx = word_of_nat m, totSize = MAX_QUERY_NUM\<rparr>]" and
      qs: "qs = map (\<lambda>i. \<lparr>heapIdx = 0, queryIdxInHeap = word_of_nat i\<rparr>) [0..<m]"
      by auto
    from Suc.prems have "m < 1024" by simp
    then have room: "curIdx (last (globalQueryHeaps g')) < totSize (last (globalQueryHeaps g'))"
      by (simp add: heaps slot_below_capacity)
    have ne: "globalQueryHeaps g' \<noteq> []" by (simp add: heaps)
    show ?thesis
      by (simp add: run dxCreateQuery_next_slot [OF free ne room] heaps free qs dxInit_def)
  qed
qed

lemma dxCreateQuery_times_step:
  "dxCreateQuery_times n g = Inr (qs, g1) \<Longrightarrow> dxCreateQuery True g1 = Inr (q, g2) \<Longrightarrow>
   dxCreateQuery_times (Suc n) g = Inr (qs @ [q], g2)"
  by simp

lemma dxCreateQuery_times_second_heap:
  assumes "globalFreeQueries g = []" and "globalQueryHeaps g = []"
  shows "0 < k \<Longrightarrow> k \<le> 1024 \<Longrightarrow>
         \<exists>qs g'. dxCreateQuery_times (1024 + k) g = Inr (qs, g')
           \<and> globalFreeQueries g' = []
           \<and> globalQueryHeaps g' =
               [\<lparr>curIdx = MAX_QUERY_NUM, totSize = MAX_QUERY_NUM\<rparr>,
                \<lparr>curIdx = word_of_nat k, totSize = MAX_QUERY_NUM\<rparr>]
           \<and> last qs = \<lparr>heapIdx = 1, queryIdxInHeap = word_of_nat (k - 1)\<rparr>"
proof (induction k)
  case 0
  then show ?case by simp
next
  case (Suc j)
  show ?case
  proof (cases "j = 0")
    case True
    from dxCreateQuery_times_first_heap [OF assms, of 1024]
    obtain qs g' where
      run: "dxCreateQuery_times 1024 g = Inr (qs, g')" and
      free: "globalFreeQueries g' = []" and
      heaps: "globalQueryHeaps g' = [\<lparr>curIdx = word_of_nat 1024, totSize = MAX_QUERY_NUM\<rparr>]"
      by auto
    have full: "globalQueryHeaps g' = []
        \<or> totSize (last (globalQueryHeaps g')) \<le> curIdx (last (globalQueryHeaps g'))"
      by (simp add: heaps MAX_QUERY_NUM_def)
    from dxCreateQuery_times_step [OF run dxCreateQuery_new_heap [OF free full]]
    show ?thesis
      using True by (simp add: heaps free dxInit_def MAX_QUERY_NUM_def)
  next
    case False
    with Suc obtain qs g' where
      run: "dxCreateQuery_times (1024 + j) g = Inr (qs, g')" and
      free: "globalFreeQueries g' = []" and
      heaps: "globalQueryHeaps g' =
               [\<lparr>curIdx = MAX_QUERY_NUM, totSize = MAX_QUERY_NUM\<rparr>,
                \<lparr>curIdx = word_of_nat j, totSize = MAX_QUERY_NUM\<rparr>]"
      by auto
    from Suc.prems have "j < 1024" by simp
    then have room: "curIdx (last (globalQueryHeaps g')) < totSize (last (globalQueryHeaps g'))"
      by (simp add: heaps slot_below_capacity)
    have ne: "globalQueryHeaps g' \<noteq> []" by (simp add: heaps)
    from dxCreateQuery_times_step [OF run dxCreateQuery_next_slot [OF free ne room]]
    show ?thesis
      by (simp add: heaps free dxInit_def)
  qed
qed

text \<open>
  Claim C9. \<open>dxCreateQuery\<close> returns the last query of the free list when there is one,
  and no heap changes. With the free list empty and no heap, or the cursor of the last heap
  at its capacity, it appends a heap of \<open>MAX_QUERY_NUM\<close> slots and returns slot 0 of it;
  otherwise it returns the slot under the cursor of the last heap and moves the cursor by
  one. Creating a query right after destroying \<open>q\<close> returns \<open>q\<close> and leaves the heaps and
  the rest of the free list as they were. Starting with no heap and an empty free list,
  \<open>MAX_QUERY_NUM\<close> creations fill one heap, and one more creation makes a second heap and
  returns its slot 0.
\<close>

theorem dxCreateQuery_pool:
  "(globalFreeQueries g \<noteq> [] \<longrightarrow>
      (\<exists>g'. dxCreateQuery ok g = Inr (last (globalFreeQueries g), g')
         \<and> globalFreeQueries g' = butlast (globalFreeQueries g)
         \<and> globalQueryHeaps g' = globalQueryHeaps g))
   \<and> (globalFreeQueries g = []
        \<and> (globalQueryHeaps g = []
            \<or> totSize (last (globalQueryHeaps g)) \<le> curIdx (last (globalQueryHeaps g))) \<longrightarrow>
      (\<exists>g'. dxCreateQuery True g =
               Inr (\<lparr>heapIdx = word_of_nat (length (globalQueryHeaps g)), queryIdxInHeap = 0\<rparr>, g')
         \<and> globalQueryHeaps g' =
             globalQueryHeaps g @ [\<lparr>curIdx = 1, totSize = MAX_QUERY_NUM\<rparr>]))
   \<and> (globalFreeQueries g = [] \<and> globalQueryHeaps g \<noteq> []
        \<and> curIdx (last (globalQueryHeaps g)) < totSize (last (globalQueryHeaps g)) \<longrightarrow>
      (\<exists>g'. dxCreateQuery ok g =
               Inr (\<lparr>heapIdx = word_of_nat (length (globalQueryHeaps g)) - 1,
                     queryIdxInHeap = curIdx (last (globalQueryHeaps g))\<rparr>, g')
         \<and> globalQueryHeaps g' =
             butlast (globalQueryHeaps g)
             @ [(last (globalQueryHeaps g))\<lparr>curIdx := curIdx (last (globalQueryHeaps g)) + 1\<rparr>]))
   \<and> (\<exists>g'. dxCreateQuery ok (dxDestroyQuery (Some q) g) = Inr (q, g')
         \<and> globalQueryHeaps g' = globalQueryHeaps g
         \<and> globalFreeQueries g' = globalFreeQueries g)
   \<and> (globalFreeQueries g = [] \<and> globalQueryHeaps g = [] \<longrightarrow>
      (\<exists>qs g'. dxCreateQuery_times (unat MAX_QUERY_NUM) g = Inr (qs, g')
         \<and> length (globalQueryHeaps g') = 1)
      \<and> (\<exists>qs g'. dxCreateQuery_times (unat MAX_QUERY_NUM + 1) g = Inr (qs, g')
         \<and> length (globalQueryHeaps g') = 2
         \<and> last qs = \<lparr>heapIdx = 1, queryIdxInHeap = 0\<rparr>))"
proof (intro conjI impI)
  assume "globalFreeQueries g \<noteq> []"
  then show "\<exists>g'. dxCreateQuery ok g = Inr (last (globalFreeQueries g), g')
         \<and> globalFreeQueries g' = butlast (globalFreeQueries g)
         \<and> globalQueryHeaps g' = globalQueryHeaps g"
    by (simp add: dxCreateQuery_recycle dxInit_def)
next
  assume "globalFreeQueries g = []
        \<and> (globalQueryHeaps g = []
            \<or> totSize (last (globalQueryHeaps g)) \<le> curIdx (last (globalQueryHeaps g)))"
  then show "\<exists>g'. dxCreateQuery True g =
               Inr (\<lparr>heapIdx = word_of_nat (length (globalQueryHeaps g)), queryIdxInHeap = 0\<rparr>, g')
         \<and> globalQueryHeaps g' =
             globalQueryHeaps g @ [\<lparr>curIdx = 1, totSize = MAX_QUERY_NUM\<rparr>]"
    by (simp add: dxCreateQuery_new_heap dxInit_def)
next
  assume "globalFreeQueries g = [] \<and> globalQueryHeaps g \<noteq> []
        \<and> curIdx (last (globalQueryHeaps g)) < totSize (last (globalQueryHeaps g))"
  then show "\<exists>g'. dxCreateQuery ok g =
               Inr (\<lparr>heapIdx = word_of_nat (length (globalQueryHeaps g)) - 1,
                     queryIdxInHeap = curIdx (last (globalQueryHeaps g))\<rparr>, g')
         \<and> globalQueryHeaps g' =
             butlast (globalQueryHeaps g)
             @ [(last (globalQueryHeaps g))\<lparr>curIdx := curIdx (last (globalQueryHeaps g)) + 1\<rparr>]"
    by (simp add: dxCreateQuery_next_slot dxInit_def)
next
  show "\<exists>g'. dxCreateQuery ok (dxDestroyQuery (Some q) g) = Inr (q, g')
         \<and> globalQueryHeaps g' = globalQueryHeaps g
         \<and> globalFreeQueries g' = globalFreeQueries g"
    by (simp add: dxCreateQuery_after_destroy dxInit_def)
next
  assume fresh: "globalFreeQueries g = [] \<and> globalQueryHeaps g = []"
  from dxCreateQuery_times_first_heap [of g 1024] fresh
  show "\<exists>qs g'. dxCreateQuery_times (unat MAX_QUERY_NUM) g = Inr (qs, g')
         \<and> length (globalQueryHeaps g') = 1"
    by (auto simp: MAX_QUERY_NUM_def)
next
  assume fresh: "globalFreeQueries g = [] \<and> globalQueryHeaps g = []"
  from dxCreateQuery_times_second_heap [of g 1] fresh
  show "\<exists>qs g'. dxCreateQuery_times (unat MAX_QUERY_NUM + 1) g = Inr (qs, g')
         \<and> length (globalQueryHeaps g') = 2
         \<and> last qs = \<lparr>heapIdx = 1, queryIdxInHeap = 0\<rparr>"
    by (auto simp: MAX_QUERY_NUM_def)
qed

theorem dxCreateQuery_pool_witness:
  "globalFreeQueries initial_globals = [] \<and> globalQueryHeaps initial_globals = []
   \<and> dxCreateQuery True initial_globals =
       Inr (\<lparr>heapIdx = 0, queryIdxInHeap = 0\<rparr>,
            initial_globals\<lparr>inited := True,
               globalQueryHeaps := [\<lparr>curIdx = 1, totSize = MAX_QUERY_NUM\<rparr>],
               device := [Init, CreateCommittedResource 8192, CreateQueryHeap MAX_QUERY_NUM]\<rparr>)
   \<and> (\<exists>qs g'. dxCreateQuery_times (unat MAX_QUERY_NUM + 1) initial_globals = Inr (qs, g')
         \<and> length (globalQueryHeaps g') = 2
         \<and> last qs = \<lparr>heapIdx = 1, queryIdxInHeap = 0\<rparr>)"
proof -
  have fresh: "globalFreeQueries initial_globals = [] \<and> globalQueryHeaps initial_globals = []"
    by (simp add: initial_globals_def)
  have one: "dxCreateQuery True initial_globals =
       Inr (\<lparr>heapIdx = 0, queryIdxInHeap = 0\<rparr>,
            initial_globals\<lparr>inited := True,
               globalQueryHeaps := [\<lparr>curIdx = 1, totSize = MAX_QUERY_NUM\<rparr>],
               device := [Init, CreateCommittedResource 8192, CreateQueryHeap MAX_QUERY_NUM]\<rparr>)"
    by (simp add: dxCreateQuery_def dxInit_def initial_globals_def MAX_QUERY_NUM_def)
  from dxCreateQuery_pool [of initial_globals True] fresh one
  show ?thesis by simp
qed

section \<open>Element byte size\<close>

lemma TypeSize_loop_all_digits:
  "(\<forall>i<n. isdigit (dt ! i)) \<Longrightarrow>
   TypeSize_loop dt n = Inl (RuntimeError (''Invalid data type name: '' @ dt))"
  by (induction n) simp_all

lemma TypeSize_loop_last_non_digit:
  assumes "\<forall>d\<in>set ds. isdigit d" and "\<not> isdigit c"
  shows "k \<le> length ds \<Longrightarrow>
         TypeSize_loop (pre @ c # ds) (Suc (length pre) + k) = bits_result (atoi ds)"
proof (induction k)
  case 0
  from assms(2) show ?case by (simp add: bits_result_def)
next
  case (Suc j)
  then have "j < length ds" by simp
  then have "isdigit (ds ! j)" using assms(1) by simp
  then have "isdigit ((pre @ c # ds) ! (Suc (length pre) + j))"
    by (simp add: nth_append)
  with Suc show ?case by simp
qed

lemma digits_value_foldl:
  "\<forall>d\<in>set ds. isdigit d \<Longrightarrow>
   digits_value acc ds = foldl (\<lambda>acc c. 10 * acc + (of_char c - 48)) acc ds"
  by (induction ds arbitrary: acc) simp_all

lemma isdigit_not_space_sign:
  "isdigit c \<Longrightarrow> \<not> isspace c \<and> c \<noteq> CHR ''-'' \<and> c \<noteq> CHR ''+''"
  by (auto simp: isdigit_def isspace_def)

lemma atoi_digits:
  assumes "\<forall>d\<in>set ds. isdigit d"
  shows "atoi ds = min INT_MAX (int (decimal_value ds))"
proof (cases ds)
  case Nil
  then show ?thesis by (simp add: atoi_def decimal_value_def INT_MAX_def)
next
  case (Cons c r)
  with assms have "isdigit c" by simp
  then have c: "\<not> isspace c" "c \<noteq> CHR ''-''" "c \<noteq> CHR ''+''"
    using isdigit_not_space_sign by blast+
  from assms have "digits_value 0 ds = decimal_value ds"
    by (simp add: digits_value_foldl decimal_value_def)
  with c Cons show ?thesis by (simp add: atoi_def)
qed

lemma split_at_last_non_digit:
  assumes "\<exists>c\<in>set s. \<not> isdigit c"
  shows "\<exists>pre c. s = pre @ c # trailing_digits s \<and> \<not> isdigit c"
proof -
  let ?r = "rev s"
  from assms have "dropWhile isdigit ?r \<noteq> []" by (simp add: dropWhile_eq_Nil_conv)
  then obtain c rest where d: "dropWhile isdigit ?r = c # rest"
    by (cases "dropWhile isdigit ?r") auto
  then have "\<not> isdigit c" using hd_dropWhile [of isdigit ?r] by simp
  moreover have "?r = takeWhile isdigit ?r @ c # rest"
    using takeWhile_dropWhile_id [of isdigit ?r] d by simp
  then have "rev ?r = rev (takeWhile isdigit ?r @ c # rest)" by simp
  then have "s = rev rest @ c # trailing_digits s"
    by (simp add: trailing_digits_def)
  ultimately show ?thesis by blast
qed

lemma trailing_digits_are_digits: "\<forall>d\<in>set (trailing_digits s). isdigit d"
  by (auto simp: trailing_digits_def dest: set_takeWhileD)

lemma TypeSize_loop_name:
  assumes "\<exists>c\<in>set s. \<not> isdigit c"
  shows "TypeSize_loop s (length s) = bits_result (atoi (trailing_digits s))"
proof -
  from split_at_last_non_digit [OF assms] obtain pre c where
    s: "s = pre @ c # trailing_digits s" and c: "\<not> isdigit c" by blast
  have "TypeSize_loop (pre @ c # trailing_digits s)
          (Suc (length pre) + length (trailing_digits s))
        = bits_result (atoi (trailing_digits s))"
    by (rule TypeSize_loop_last_non_digit [OF trailing_digits_are_digits c]) simp
  moreover have "length s = Suc (length pre) + length (trailing_digits s)"
    by (subst s) simp
  ultimately show ?thesis using s by simp
qed

lemma trailing_digits_none:
  assumes "s \<noteq> []" and "\<not> isdigit (last s)"
  shows "trailing_digits s = []"
proof -
  from assms(1) have "s = butlast s @ [last s]" by simp
  then have r: "rev s = last s # rev (butlast s)"
    by (metis rev_append rev_singleton_conv append_Cons append_Nil)
  show ?thesis
    unfolding trailing_digits_def by (subst r) (simp add: assms(2))
qed

lemma bits_result_numeral:
  "bits_result (min INT_MAX (int n)) =
     (if int n \<le> INT_MAX \<and> 8 dvd n then Inr (n div 8)
      else Inl (RuntimeError ''Data type bitsize must align with 8-bit byte type.''))"
proof (cases "int n \<le> INT_MAX")
  case True
  then have m: "min INT_MAX (int n) = int n" by simp
  have d: "c_div (int n) 8 = int (n div 8)"
    by (simp add: c_div_def zdiv_int)
  have r: "c_rem (int n) 8 = int (n mod 8)"
  proof -
    have "c_rem (int n) 8 = int n - 8 * (int n div 8)"
      unfolding c_rem_def d by (simp add: zdiv_int)
    also have "\<dots> = int n mod 8" by (rule minus_mult_div_eq_mod)
    also have "\<dots> = int (n mod 8)" by (simp add: zmod_int)
    finally show ?thesis .
  qed
  have s: "size_t_of_int (int (n div 8)) = n div 8"
  proof -
    have "int (n div 8) \<le> int n" by (simp add: zle_int)
    with True have "int (n div 8) < 2 ^ 64" by (simp add: INT_MAX_def)
    then have "int (n div 8) mod 2 ^ 64 = int (n div 8)" by simp
    then show ?thesis by (simp add: size_t_of_int_def)
  qed
  show ?thesis
    using True by (auto simp: bits_result_def m d r s dvd_eq_mod_eq_0)
next
  case False
  then have m: "min INT_MAX (int n) = INT_MAX" by simp
  have "c_rem INT_MAX 8 = 7"
    by (simp add: c_rem_def c_div_def INT_MAX_def)
  with False show ?thesis by (simp add: bits_result_def m)
qed

lemma TypeSize_name:
  assumes "\<exists>c\<in>set (dtype t). \<not> isdigit c"
  shows "TypeSize t =
     (if int (trailing_numeral (dtype t)) \<le> INT_MAX \<and> 8 dvd trailing_numeral (dtype t)
      then Inr (trailing_numeral (dtype t) div 8)
      else Inl (RuntimeError ''Data type bitsize must align with 8-bit byte type.''))"
  unfolding TypeSize_def TypeSize_loop_name [OF assms]
    atoi_digits [OF trailing_digits_are_digits] trailing_numeral_def
  by (rule bits_result_numeral)

lemma TypeSize_all_digits:
  assumes "\<forall>c\<in>set (dtype t). isdigit c"
  shows "TypeSize t = Inl (RuntimeError (''Invalid data type name: '' @ dtype t))"
  unfolding TypeSize_def using assms by (intro TypeSize_loop_all_digits) simp

text \<open>
  Claim C7. Whenever \<open>TypeSize\<close> returns a size, the trailing numeral of the datatype name
  is divisible by 8 and the size is the numeral divided by 8; whenever the trailing numeral
  is not divisible by 8 it throws, and in a name that has a byte which is not a digit the
  exception is the one about the 8-bit alignment; a name of digits only (the empty name
  among them) throws the invalid-name exception. A name with a non-digit byte whose
  numeral is divisible by 8 and fits an \<open>int\<close> gets its size.
\<close>

theorem TypeSize_trailing_numeral:
  "(TypeSize t = Inr v \<longrightarrow>
      v = trailing_numeral (dtype t) div 8 \<and> 8 dvd trailing_numeral (dtype t))
   \<and> (\<not> 8 dvd trailing_numeral (dtype t) \<longrightarrow> (\<exists>msg. TypeSize t = Inl (RuntimeError msg)))
   \<and> ((\<exists>c\<in>set (dtype t). \<not> isdigit c) \<and> \<not> 8 dvd trailing_numeral (dtype t) \<longrightarrow>
        TypeSize t = Inl (RuntimeError ''Data type bitsize must align with 8-bit byte type.''))
   \<and> ((\<forall>c\<in>set (dtype t). isdigit c) \<longrightarrow>
        TypeSize t = Inl (RuntimeError (''Invalid data type name: '' @ dtype t)))
   \<and> ((\<exists>c\<in>set (dtype t). \<not> isdigit c) \<and> 8 dvd trailing_numeral (dtype t)
        \<and> int (trailing_numeral (dtype t)) \<le> INT_MAX \<longrightarrow>
        TypeSize t = Inr (trailing_numeral (dtype t) div 8))"
proof (cases "\<forall>c\<in>set (dtype t). isdigit c")
  case True
  then show ?thesis by (simp add: TypeSize_all_digits)
next
  case False
  then have "\<exists>c\<in>set (dtype t). \<not> isdigit c" by simp
  from TypeSize_name [OF this] False show ?thesis by auto
qed

theorem TypeSize_trailing_numeral_witness:
  "TypeSize \<lparr>shape = [1024], name = ''A'', dtype = ''float32''\<rparr> = Inr 4
   \<and> trailing_numeral ''float32'' = 32
   \<and> TypeSize \<lparr>shape = [1024], name = ''A'', dtype = ''int7''\<rparr>
       = Inl (RuntimeError ''Data type bitsize must align with 8-bit byte type.'')
   \<and> trailing_numeral ''int7'' = 7"
proof -
  let ?f = "\<lparr>shape = [1024], name = ''A'', dtype = ''float32''\<rparr>"
  let ?i = "\<lparr>shape = [1024], name = ''A'', dtype = ''int7''\<rparr>"
  have n32: "trailing_numeral ''float32'' = 32" by code_simp
  have n7: "trailing_numeral ''int7'' = 7" by code_simp
  have f: "\<exists>c\<in>set ''float32''. \<not> isdigit c" by (simp add: isdigit_def)
  have i: "\<exists>c\<in>set ''int7''. \<not> isdigit c" by (simp add: isdigit_def)
  have pf: "(\<exists>c\<in>set (dtype ?f). \<not> isdigit c) \<and> 8 dvd trailing_numeral (dtype ?f)
        \<and> int (trailing_numeral (dtype ?f)) \<le> INT_MAX"
    using f by (simp add: n32 INT_MAX_def)
  have pi: "(\<exists>c\<in>set (dtype ?i). \<not> isdigit c) \<and> \<not> 8 dvd trailing_numeral (dtype ?i)"
    using i by (simp add: n7)
  note T = TypeSize_trailing_numeral [of ?f 0, THEN conjunct2, THEN conjunct2, THEN conjunct2,
      THEN conjunct2, THEN mp, OF pf]
  note U = TypeSize_trailing_numeral [of ?i 0, THEN conjunct2, THEN conjunct2, THEN conjunct1,
      THEN mp, OF pi]
  from T have "TypeSize ?f = Inr 4" by (simp add: n32)
  with U n32 n7 show ?thesis by simp
qed

lemma TypeSize_zero:
  assumes "dtype t \<noteq> []" and "\<not> isdigit (last (dtype t))"
  shows "TypeSize t = Inr 0"
proof -
  from assms have "last (dtype t) \<in> set (dtype t)" by simp
  with assms(2) have ex: "\<exists>c\<in>set (dtype t). \<not> isdigit c" by blast
  from trailing_digits_none [OF assms] have "trailing_numeral (dtype t) = 0"
    by (simp add: trailing_numeral_def decimal_value_def)
  with TypeSize_name [OF ex] show ?thesis by (simp add: INT_MAX_def)
qed

lemma strncpy_s_fits:
  "length src < MAX_PATH \<Longrightarrow> strncpy_s MAX_PATH src MAX_PATH = Inr src"
  by (simp add: strncpy_s_def)

text \<open>
  Claim C10 as stated fails on the code. The empty name has no trailing digit, and
  \<open>parse_tensor\<close> makes it from the parameter \<open>1//A\<close>; on it the loop of \<open>TypeSize\<close> finds
  no byte and the invalid-name exception is thrown, also through
  \<open>dxGetShaderArgumentProperty\<close>. A name of 260 bytes \<open>f\<close> has no trailing digit either;
  when its name is asked for, the copy into the static buffer invokes the
  invalid-parameter handler.
\<close>

theorem TypeSize_empty_name_throws:
  "parse_tensor ''1//A'' = Inr \<lparr>shape = [1], name = ''A'', dtype = []\<rparr>
   \<and> TypeSize \<lparr>shape = [1], name = ''A'', dtype = []\<rparr>
       = Inl (RuntimeError ''Invalid data type name: '')
   \<and> dxGetShaderArgumentProperty
        \<lparr>block = (1, 1, 1), thread = (1, 1, 1),
         inputs = [\<lparr>shape = [1], name = ''A'', dtype = []\<rparr>],
         outputs = [], source = []\<rparr> 0 True True True
       = Inl (RuntimeError ''Invalid data type name: '')
   \<and> dxGetShaderArgumentProperty
        \<lparr>block = (1, 1, 1), thread = (1, 1, 1),
         inputs = [\<lparr>shape = [1], name = ''A'', dtype = replicate 260 (CHR ''f'')\<rparr>],
         outputs = [], source = []\<rparr> 0 True True True
       = Inl InvalidParameter"
proof -
  have p: "parse_tensor ''1//A'' = Inr \<lparr>shape = [1], name = ''A'', dtype = []\<rparr>"
    by (simp add: parse_tensor_def ssplit_def find_str_def atoi_def isdigit_def isspace_def
        INT_MAX_def)
  have e: "TypeSize \<lparr>shape = [1], name = ''A'', dtype = []\<rparr>
       = Inl (RuntimeError ''Invalid data type name: '')"
    by (simp add: TypeSize_def)
  have f: "\<not> isdigit (CHR ''f'')" by (simp add: isdigit_def)
  have z: "TypeSize \<lparr>shape = [1], name = ''A'', dtype = replicate 260 (CHR ''f'')\<rparr> = Inr 0"
    by (rule TypeSize_zero) (simp_all add: f)
  have c: "c_str (replicate 260 (CHR ''f'')) = replicate 260 (CHR ''f'')"
    by (simp add: c_str_def)
  have g: "dxGetShaderArgumentProperty
        \<lparr>block = (1, 1, 1), thread = (1, 1, 1),
         inputs = [\<lparr>shape = [1], name = ''A'', dtype = []\<rparr>],
         outputs = [], source = []\<rparr> 0 True True True
       = Inl (RuntimeError ''Invalid data type name: '')"
    by (simp add: dxGetShaderArgumentProperty_def size_t_of_int_def e)
  have h: "dxGetShaderArgumentProperty
        \<lparr>block = (1, 1, 1), thread = (1, 1, 1),
         inputs = [\<lparr>shape = [1], name = ''A'', dtype = replicate 260 (CHR ''f'')\<rparr>],
         outputs = [], source = []\<rparr> 0 True True True
       = Inl InvalidParameter"
    by (simp add: dxGetShaderArgumentProperty_def size_t_of_int_def z c strncpy_s_def
        MAX_PATH_def)
  from p e g h show ?thesis by (intro conjI)
qed

text \<open>
  Claim C10, amended. For a datatype name that is not empty and ends in a byte which is not
  a digit (such as \<open>float\<close>), the trailing numeral is empty and counts as 0, \<open>TypeSize\<close>
  returns 0 and throws nothing, and \<open>dxGetShaderArgumentProperty\<close> returns and stores the
  element byte size 0 for every argument of a kernel that has this tensor, whenever the
  name is not asked for or is shorter than \<open>MAX_PATH\<close> bytes.
\<close>

theorem TypeSize_without_trailing_digits:
  "dtype t \<noteq> [] \<and> \<not> isdigit (last (dtype t)) \<longrightarrow>
     trailing_numeral (dtype t) = 0
   \<and> TypeSize t = Inr 0
   \<and> (\<forall>(hdl :: dx_shader_t) i num_elements type_size dtype_name.
         0 \<le> i \<and> i \<le> INT_MAX \<and> nat i < length (inputs hdl @ outputs hdl)
          \<and> (inputs hdl @ outputs hdl) ! nat i = t
          \<and> (dtype_name \<longrightarrow> length (c_str (dtype t)) < MAX_PATH) \<longrightarrow>
        dxGetShaderArgumentProperty hdl i num_elements type_size dtype_name
          = Inr (if num_elements then Some (NumElements t) else None,
                 if type_size then Some 0 else None,
                 if dtype_name then Some (c_str (dtype t)) else None))"
proof (intro impI conjI allI)
  assume a: "dtype t \<noteq> [] \<and> \<not> isdigit (last (dtype t))"
  then show "trailing_numeral (dtype t) = 0"
    by (simp add: trailing_digits_none trailing_numeral_def decimal_value_def)
  from a show z: "TypeSize t = Inr 0" by (simp add: TypeSize_zero)
  fix hdl :: dx_shader_t and i :: int and num_elements type_size dtype_name :: bool
  assume b: "0 \<le> i \<and> i \<le> INT_MAX \<and> nat i < length (inputs hdl @ outputs hdl)
          \<and> (inputs hdl @ outputs hdl) ! nat i = t
          \<and> (dtype_name \<longrightarrow> length (c_str (dtype t)) < MAX_PATH)"
  then have "i mod 2 ^ 64 = i" by (simp add: INT_MAX_def)
  then have s: "size_t_of_int i = nat i" by (simp add: size_t_of_int_def)
  have pick: "(if nat i < length (inputs hdl) then Inr (inputs hdl ! nat i)
            else if length (outputs hdl) \<le> nat i - length (inputs hdl) then Inl OutOfRange
            else Inr (outputs hdl ! (nat i - length (inputs hdl)))) = Inr t"
    using b by (auto simp: nth_append)
  have copy: "(if dtype_name
               then map_sum id Some (strncpy_s MAX_PATH (c_str (dtype t)) MAX_PATH)
               else Inr None)
              = Inr (if dtype_name then Some (c_str (dtype t)) else None)"
    using b by (simp add: strncpy_s_fits)
  show "dxGetShaderArgumentProperty hdl i num_elements type_size dtype_name
          = Inr (if num_elements then Some (NumElements t) else None,
                 if type_size then Some 0 else None,
                 if dtype_name then Some (c_str (dtype t)) else None)"
    unfolding dxGetShaderArgumentProperty_def Let_def s pick
    by (simp only: sum.case z copy)
qed

theorem TypeSize_without_trailing_digits_witness:
  "TypeSize \<lparr>shape = [1024], name = ''A'', dtype = ''float''\<rparr> = Inr 0
   \<and> dxGetShaderArgumentProperty
        \<lparr>block = (1, 1, 1), thread = (1, 1, 1),
         inputs = [\<lparr>shape = [1024], name = ''A'', dtype = ''float''\<rparr>],
         outputs = [], source = []\<rparr> 0 True True True
      = Inr (Some 1024, Some 0, Some ''float'')"
proof -
  let ?t = "\<lparr>shape = [1024], name = ''A'', dtype = ''float''\<rparr>"
  let ?h = "\<lparr>block = (1, 1, 1), thread = (1, 1, 1), inputs = [?t],
         outputs = [], source = []\<rparr>"
  have p: "dtype ?t \<noteq> [] \<and> \<not> isdigit (last (dtype ?t))"
    by (simp add: isdigit_def)
  note T = TypeSize_without_trailing_digits [of ?t, THEN mp, OF p]
  have c: "c_str ''float'' = ''float''" by (simp add: c_str_def)
  have q: "(0::int) \<le> 0 \<and> 0 \<le> INT_MAX \<and> nat 0 < length (inputs ?h @ outputs ?h)
          \<and> (inputs ?h @ outputs ?h) ! nat 0 = ?t
          \<and> (True \<longrightarrow> length (c_str (dtype ?t)) < MAX_PATH)"
    by (simp add: INT_MAX_def c MAX_PATH_def)
  from T have "TypeSize ?t = Inr 0" by (rule conjunct2 [THEN conjunct1])
  moreover
  from T have "dxGetShaderArgumentProperty ?h 0 True True True
      = Inr (if True then Some (NumElements ?t) else None,
             if True then Some 0 else None,
             if True then Some (c_str (dtype ?t)) else None)"
    using q by blast
  ultimately show ?thesis by (simp add: NumElements_def c)
qed

section \<open>Kernel metadata\<close>

lemma get_between_no_begin:
  "find_str src begin_m 0 = None \<Longrightarrow> get_between src begin_m end_m def = Inr def"
  by (simp add: get_between_def int_of_pos_def)

lemma atoi_one: "atoi ''1'' = 1"
  by (simp add: atoi_def isspace_def isdigit_def INT_MAX_def)

lemma thread_extent_default:
  "find_str src (''// [thread_extent] '' @ axis @ '' = '') 0 = None \<Longrightarrow>
   thread_extent src axis = Inr 1"
  by (simp add: thread_extent_def get_between_no_begin atoi_one)

lemma find_first_bounds:
  "find_first pat s = Some k \<Longrightarrow> k + length pat \<le> length s"
proof (induction s arbitrary: k)
  case Nil
  then show ?case by (simp split: if_splits)
next
  case (Cons c cs)
  show ?case
  proof (cases "take (length pat) (c # cs) = pat")
    case True
    then have "length (take (length pat) (c # cs)) = length pat" by simp
    then have "length pat \<le> length (c # cs)" by (simp only: length_take)
    with Cons.prems True show ?thesis by simp
  next
    case False
    with Cons.prems obtain j where "find_first pat cs = Some j" and "k = Suc j"
      by auto
    with Cons.IH show ?thesis by simp
  qed
qed

text \<open>
  The rounds given to the loop of \<open>ssplit\<close> are enough for every delimiter that is not
  empty: the lambda returns.
\<close>

lemma find_str_bounds:
  assumes "find_str s pat pos = Some k"
  shows "pos \<le> k" and "k + length pat \<le> length s"
proof -
  from assms obtain j where j: "find_first pat (drop pos s) = Some j" and k: "k = pos + j"
    and le: "pos \<le> length s"
    by (auto simp: find_str_def split: if_splits)
  from k show "pos \<le> k" by simp
  from find_first_bounds [OF j] k le show "k + length pat \<le> length s" by simp
qed

lemma ssplit_loop_returns:
  assumes "delim \<noteq> []"
  shows "length src + 1 \<le> it + n \<Longrightarrow> 0 < n \<Longrightarrow> \<exists>ret. ssplit_loop n src delim it = Inr ret"
proof (induction n arbitrary: it)
  case 0
  then show ?case by simp
next
  case (Suc m)
  show ?case
  proof (cases "find_str src delim it")
    case None
    then show ?thesis by simp
  next
    case (Some nxt)
    from assms have "0 < length delim" by simp
    with find_str_bounds [OF Some]
    have a: "it < nxt + length delim" and b: "nxt + length delim \<le> length src"
      by linarith+
    with Suc.prems have "length src + 1 \<le> nxt + length delim + m" and "0 < m"
      by simp_all
    from Suc.IH [OF this] obtain ret where
      "ssplit_loop m src delim (nxt + length delim) = Inr ret" by blast
    with Some show ?thesis by simp
  qed
qed

lemma ssplit_returns: "delim \<noteq> [] \<Longrightarrow> \<exists>ret. ssplit src delim = Inr ret"
  unfolding ssplit_def by (rule ssplit_loop_returns) simp_all

lemma get_between_no_end:
  assumes b: "find_str src begin_m 0 = Some p"
      and e: "find_str src end_m (p + length begin_m) = None"
      and short: "length src < 2 ^ 63"
  shows "get_between src begin_m end_m def = Inr (drop (p + length begin_m) src)"
proof -
  from b have "find_first begin_m src = Some p"
    by (simp add: find_str_def)
  then have le: "p + length begin_m \<le> length src" by (rule find_first_bounds)
  let ?idx = "int p + int (length begin_m)"
  have "?idx < 2 ^ 64" using le short by simp
  then have "?idx mod 2 ^ 64 = ?idx" by simp
  then have i: "size_t_of_int ?idx = p + length begin_m"
    by (simp add: size_t_of_int_def nat_add_distrib)
  have "- 1 - ?idx + 2 ^ 64 \<ge> 0" "- 1 - ?idx + 2 ^ 64 < 2 ^ 64" using le short by simp_all
  then have "(- 1 - ?idx) mod 2 ^ 64 = - 1 - ?idx + 2 ^ 64"
    by (metis mod_add_self2 mod_pos_pos_trivial)
  moreover have "int (length src) \<le> - 1 - ?idx + 2 ^ 64" using le short by simp
  ultimately have n: "length src \<le> size_t_of_int (- 1 - ?idx)"
    by (simp add: size_t_of_int_def)
  show ?thesis
    using le n by (simp add: get_between_def b e int_of_pos_def i substr_def)
qed

lemmas parse_eval =
  parse_shader_def thread_extents_def thread_extent_def get_between_def find_str_def
  int_of_pos_def substr_def size_t_of_int_def atoi_def isdigit_def isspace_def INT_MAX_def
  INT_MIN_def ssplit_def parse_tensor_def thread_product_def INT64_mul_def

text \<open>
  Claim C3 on the code. With the begin marker absent \<open>get_between\<close> returns its default (the
  lemmas above). With the begin marker present and no end marker after it, it returns the
  rest of the source and not the default: the annotation \<open>blockIdx.x = 7\<close> on a last line
  that has no newline sets the block count to 7, not to the default 1.
\<close>

theorem get_between_missing_end_marker:
  "get_between ''// [thread_extent] blockIdx.x = 7'' ''// [thread_extent] blockIdx.x = ''
       ''\<newline>'' ''1'' = Inr ''7''
   \<and> (\<exists>hdl g.
        dxCreateShader (\<lambda>path. None) (\<lambda>src. True) True
          ''///1024/float32/A:1024/float32/B\<newline>// [thread_extent] blockIdx.x = 7''
          initial_globals = Inr (hdl, g)
        \<and> block hdl = (7, 1, 1) \<and> thread hdl = (1, 1, 1))"
proof -
  have g: "get_between ''// [thread_extent] blockIdx.x = 7''
       ''// [thread_extent] blockIdx.x = '' ''\<newline>'' ''1'' = Inr ''7''"
    by (simp add: get_between_def find_str_def int_of_pos_def substr_def size_t_of_int_def)
  have p: "parse_shader
      ''///1024/float32/A:1024/float32/B\<newline>// [thread_extent] blockIdx.x = 7''
    = Inr \<lparr>block = (7, 1, 1), thread = (1, 1, 1),
           inputs = [\<lparr>shape = [1024], name = ''A'', dtype = ''float32''\<rparr>],
           outputs = [\<lparr>shape = [1024], name = ''B'', dtype = ''float32''\<rparr>],
           source = ''///1024/float32/A:1024/float32/B\<newline>// [thread_extent] blockIdx.x = 7''\<rparr>"
    by (simp add: parse_eval)
  show ?thesis
    by (simp add: g dxCreateShader_def dxInit_def initial_globals_def p)
qed

lemma INT64_mul_exact:
  assumes "- (2 ^ 63) \<le> a * b" and "a * b < 2 ^ 63"
  shows "INT64_mul a b = a * b"
proof -
  have "word_of_int a * word_of_int b = (word_of_int (a * b) :: 64 word)"
    by simp
  then have "INT64_mul a b = sint (word_of_int (a * b) :: 64 word)"
    by (simp only: INT64_mul_def)
  also have "\<dots> = signed_take_bit (LENGTH(64) - 1) (a * b)"
    by (rule sint_sbintrunc')
  also have "\<dots> = a * b"
    using assms by (simp add: signed_take_bit_int_eq_self)
  finally show ?thesis .
qed

lemma thread_product_exact:
  assumes "- (2 ^ 63) \<le> x * y" and "x * y < 2 ^ 63"
      and "- (2 ^ 63) \<le> x * y * z" and "x * y * z < 2 ^ 63"
  shows "thread_product (x, y, z) = x * y * z"
  using assms by (simp add: thread_product_def INT64_mul_exact)

lemma parse_shader_asserts:
  "parse_shader src = Inr hdl \<Longrightarrow> thread_product (thread hdl) \<le> 1024"
  by (auto simp: parse_shader_def split: sum.splits if_splits)

lemma dxCreateShader_asserts:
  "dxCreateShader read_file compiles driver_ok src g = Inr (hdl, g') \<Longrightarrow>
   thread_product (thread hdl) \<le> 1024"
  by (auto simp: dxCreateShader_def dxInit_def parse_shader_asserts
      split: sum.splits if_splits option.splits)

lemma parse_shader_rejects_32_33_1:
  "parse_shader
     ''///1/float32/A:1/float32/B\<newline>// [thread_extent] threadIdx.x = 32\<newline>// [thread_extent] threadIdx.y = 33\<newline>''
   = Inl AssertionFailed"
  by (simp add: parse_eval)

text \<open>
  Claim C6 on the code. The asserted product is formed in 64 bits. The thread extents
  \<open>(2097152, 2097152, 4194304)\<close> multiply to \<open>2^64\<close>, which the 64-bit product holds as 0:
  the assertion passes and the kernel is created. The extents
  \<open>(-2147483648, 2147483647, 3)\<close> multiply to a negative number, below 1024, whose 64-bit
  product is positive: the assertion fires. Where the products fit 64 bits the assertion
  is exact (the lemmas above), and \<open>(32, 33, 1)\<close> is rejected.
\<close>

theorem thread_extent_assertion_overflow:
  "(\<exists>hdl g.
      dxCreateShader (\<lambda>path. None) (\<lambda>src. True) True
        ''///1/float32/A:1/float32/B\<newline>// [thread_extent] threadIdx.x = 2097152\<newline>// [thread_extent] threadIdx.y = 2097152\<newline>// [thread_extent] threadIdx.z = 4194304\<newline>''
        initial_globals = Inr (hdl, g)
      \<and> thread hdl = (2097152, 2097152, 4194304))
   \<and> (1024 :: int) < 2097152 * 2097152 * 4194304
   \<and> parse_shader
        ''///1/float32/A:1/float32/B\<newline>// [thread_extent] threadIdx.x = -2147483648\<newline>// [thread_extent] threadIdx.y = 2147483647\<newline>// [thread_extent] threadIdx.z = 3\<newline>''
      = Inl AssertionFailed
   \<and> (- 2147483648 :: int) * 2147483647 * 3 \<le> 1024"
proof -
  have p: "parse_shader
        ''///1/float32/A:1/float32/B\<newline>// [thread_extent] threadIdx.x = 2097152\<newline>// [thread_extent] threadIdx.y = 2097152\<newline>// [thread_extent] threadIdx.z = 4194304\<newline>''
    = Inr \<lparr>block = (1, 1, 1), thread = (2097152, 2097152, 4194304),
           inputs = [\<lparr>shape = [1], name = ''A'', dtype = ''float32''\<rparr>],
           outputs = [\<lparr>shape = [1], name = ''B'', dtype = ''float32''\<rparr>],
           source = ''///1/float32/A:1/float32/B\<newline>// [thread_extent] threadIdx.x = 2097152\<newline>// [thread_extent] threadIdx.y = 2097152\<newline>// [thread_extent] threadIdx.z = 4194304\<newline>''\<rparr>"
    by (simp add: parse_eval)
  have q: "parse_shader
        ''///1/float32/A:1/float32/B\<newline>// [thread_extent] threadIdx.x = -2147483648\<newline>// [thread_extent] threadIdx.y = 2147483647\<newline>// [thread_extent] threadIdx.z = 3\<newline>''
      = Inl AssertionFailed"
    by (simp add: parse_eval)
  show ?thesis
    by (simp add: q dxCreateShader_def dxInit_def initial_globals_def p)
qed

section \<open>Launches and the descriptor table\<close>

lemma create_views_slot:
  "isl (create_views uav ts hs slot) = isl (create_views uav ts hs slot')"
proof (induction ts arbitrary: hs slot slot')
  case Nil
  show ?case by simp
next
  case (Cons t ts)
  show ?case
  proof (cases "TypeSize t")
    case (Inl e)
    then show ?thesis by simp
  next
    case (Inr tsize)
    show ?thesis
    proof (cases hs)
      case Nil
      with Inr show ?thesis by simp
    next
      case (Cons h hs')
      have ih: "isl (create_views uav ts hs' (slot + 1)) = isl (create_views uav ts hs' (slot' + 1))"
        by (rule Cons.IH)
      show ?thesis
      proof (cases "create_views uav ts hs' (slot + 1)")
        case a: (Inl e)
        with ih obtain e' where "create_views uav ts hs' (slot' + 1) = Inl e'"
          by (cases "create_views uav ts hs' (slot' + 1)") auto
        with a Inr Cons show ?thesis by simp
      next
        case a: (Inr calls)
        with ih obtain calls' where "create_views uav ts hs' (slot' + 1) = Inr calls'"
          by (cases "create_views uav ts hs' (slot' + 1)") auto
        with a Inr Cons show ?thesis by simp
      qed
    qed
  qed
qed

lemma dxLaunchShaderAsync_advances:
  assumes "dxLaunchShaderAsync True hdl bufs s g = Inr (s', g')"
  shows "state_s s = INRECORD"
    and "descIdxOffset s' = descIdxOffset s
           + (word_of_nat (length (inputs hdl)) + word_of_nat (length (outputs hdl)))"
  using assms
  by (auto simp: dxLaunchShaderAsync_def Let_def split: if_splits sum.splits prod.splits)

lemma isl_views:
  "isl (case create_views False I H x of
          Inl e \<Rightarrow> Inl e
        | Inr srvs \<Rightarrow> (case create_views True O' H' y of
                          Inl e \<Rightarrow> Inl e
                        | Inr uavs \<Rightarrow> Inr (F srvs uavs)))
   \<longleftrightarrow> isl (create_views False I H 0) \<or> isl (create_views True O' H' 0)"
  using create_views_slot [of False I H x 0] create_views_slot [of True O' H' y 0]
  by (auto split: sum.splits)

lemma dxLaunchShaderAsync_no_guard:
  "isl (dxLaunchShaderAsync True hdl bufs (s\<lparr>descIdxOffset := c\<rparr>) g)
   = isl (dxLaunchShaderAsync True hdl bufs s g)"
proof (cases "state_s s \<noteq> INRECORD
    \<or> length bufs < length (inputs hdl) + length (outputs hdl)")
  case True
  then show ?thesis by (auto simp: dxLaunchShaderAsync_def)
next
  case False
  let ?t1 = "transition_buffers D3D12_RESOURCE_STATE_NON_PIXEL_SHADER_RESOURCE
      (take (length (inputs hdl)) bufs) (pCmdList s) (buffers g)"
  show ?thesis
  proof (cases ?t1)
    case (Inl e)
    with False show ?thesis by (simp add: dxLaunchShaderAsync_def Let_def)
  next
    case t1: (Inr r1)
    obtain cl1 store1 where r1: "r1 = (cl1, store1)" by (cases r1)
    let ?t2 = "transition_buffers D3D12_RESOURCE_STATE_UNORDERED_ACCESS
      (take (length (outputs hdl)) (drop (length (inputs hdl)) bufs)) cl1 store1"
    show ?thesis
    proof (cases ?t2)
      case (Inl e)
      with False t1 r1 show ?thesis by (simp add: dxLaunchShaderAsync_def Let_def)
    next
      case t2: (Inr r2)
      obtain cl2 store2 where r2: "r2 = (cl2, store2)" by (cases r2)
      from False t1 r1 t2 r2 show ?thesis
        by (simp add: dxLaunchShaderAsync_def Let_def isl_views)
    qed
  qed
qed

lemmas launch_eval =
  dxLaunchShaderAsync_def StateTransition_def TypeSize_def NumElements_def atoi_def
  isdigit_def isspace_def INT_MAX_def c_rem_def c_div_def size_t_of_int_def
  initial_globals_def D3D12_RESOURCE_STATE_COMMON_def
  D3D12_RESOURCE_STATE_NON_PIXEL_SHADER_RESOURCE_def D3D12_RESOURCE_STATE_UNORDERED_ACCESS_def

text \<open>
  Claim C8 as stated fails on the code: on a stream whose cursor already stands at the
  capacity of the table, \<open>MAX_HEAP_SIZE\<close>, a launch with one input and one output returns
  normally, writes its two views at the slots 65536 and 65537 and leaves the cursor at
  65538.
\<close>

theorem dxLaunchShaderAsync_past_capacity:
  "dxLaunchShaderAsync True
     \<lparr>block = (1, 1, 1), thread = (1, 1, 1),
      inputs = [\<lparr>shape = [1024], name = ''A'', dtype = ''float32''\<rparr>],
      outputs = [\<lparr>shape = [1024], name = ''B'', dtype = ''float32''\<rparr>], source = []\<rparr>
     [0, 1]
     \<lparr>fenceVal = 0, pCmdList = [], state_s = INRECORD, descIdxOffset = 65536,
      queryHeapsNeedToResolve = []\<rparr>
     (initial_globals\<lparr>buffers :=
        [\<lparr>size_b = 4096, handle = Some 0, state_b = D3D12_RESOURCE_STATE_COMMON\<rparr>,
         \<lparr>size_b = 4096, handle = Some 1, state_b = D3D12_RESOURCE_STATE_COMMON\<rparr>]\<rparr>)
   = Inr (\<lparr>fenceVal = 0,
           pCmdList =
             [ResourceBarrier (TRANSITION (Some 0) D3D12_RESOURCE_STATE_COMMON
                D3D12_RESOURCE_STATE_NON_PIXEL_SHADER_RESOURCE),
              ResourceBarrier (TRANSITION (Some 1) D3D12_RESOURCE_STATE_COMMON
                D3D12_RESOURCE_STATE_UNORDERED_ACCESS),
              SetComputeRootSignature, SetPipelineState,
              SetComputeRootDescriptorTable 65536, Dispatch 1 1 1],
           state_s = INRECORD, descIdxOffset = 65538, queryHeapsNeedToResolve = []\<rparr>,
          initial_globals\<lparr>buffers :=
            [\<lparr>size_b = 4096, handle = Some 0,
              state_b = D3D12_RESOURCE_STATE_NON_PIXEL_SHADER_RESOURCE\<rparr>,
             \<lparr>size_b = 4096, handle = Some 1,
              state_b = D3D12_RESOURCE_STATE_UNORDERED_ACCESS\<rparr>],
            device :=
            [CreateShaderResourceView (Some 0) 1024 4 65536,
             CreateUnorderedAccessView (Some 1) 1024 4 65537]\<rparr>)
   \<and> MAX_HEAP_SIZE = 65536"
  by (simp add: launch_eval MAX_HEAP_SIZE_def)

text \<open>
  Claim C8, amended. In the build with the descriptor heap, every launch that returns was
  made on a recording stream and has moved the cursor of the table by the number of
  inputs plus the number of outputs, in 32-bit unsigned arithmetic; a launch on a stream
  that is not recording fails the assertion. The cursor is never compared with anything:
  whether a launch returns or fails is the same for every value of the cursor.
\<close>

theorem dxLaunchShaderAsync_cursor:
  "(dxLaunchShaderAsync True hdl bufs s g = Inr (s', g') \<longrightarrow>
      state_s s = INRECORD
    \<and> descIdxOffset s' = descIdxOffset s
          + (word_of_nat (length (inputs hdl)) + word_of_nat (length (outputs hdl))))
   \<and> (state_s s \<noteq> INRECORD \<longrightarrow>
        dxLaunchShaderAsync True hdl bufs s g = Inl AssertionFailed)
   \<and> isl (dxLaunchShaderAsync True hdl bufs (s\<lparr>descIdxOffset := c\<rparr>) g)
       = isl (dxLaunchShaderAsync True hdl bufs s g)"
proof (intro conjI impI)
  assume r: "dxLaunchShaderAsync True hdl bufs s g = Inr (s', g')"
  from dxLaunchShaderAsync_advances(1) [OF r] show "state_s s = INRECORD" .
  from dxLaunchShaderAsync_advances(2) [OF r]
  show "descIdxOffset s' = descIdxOffset s
          + (word_of_nat (length (inputs hdl)) + word_of_nat (length (outputs hdl)))" .
next
  assume "state_s s \<noteq> INRECORD"
  then show "dxLaunchShaderAsync True hdl bufs s g = Inl AssertionFailed"
    by (simp add: dxLaunchShaderAsync_def)
next
  show "isl (dxLaunchShaderAsync True hdl bufs (s\<lparr>descIdxOffset := c\<rparr>) g)
       = isl (dxLaunchShaderAsync True hdl bufs s g)"
    by (rule dxLaunchShaderAsync_no_guard)
qed

theorem dxLaunchShaderAsync_cursor_witness:
  "dxLaunchShaderAsync True
     \<lparr>block = (1, 1, 1), thread = (1, 1, 1),
      inputs = [\<lparr>shape = [1024], name = ''A'', dtype = ''float32''\<rparr>],
      outputs = [], source = []\<rparr>
     [0]
     \<lparr>fenceVal = 0, pCmdList = [], state_s = INRECORD, descIdxOffset = 7,
      queryHeapsNeedToResolve = []\<rparr>
     (initial_globals\<lparr>buffers :=
        [\<lparr>size_b = 4096, handle = Some 0, state_b = D3D12_RESOURCE_STATE_COMMON\<rparr>]\<rparr>)
   = Inr (\<lparr>fenceVal = 0,
           pCmdList =
             [ResourceBarrier (TRANSITION (Some 0) D3D12_RESOURCE_STATE_COMMON
                D3D12_RESOURCE_STATE_NON_PIXEL_SHADER_RESOURCE),
              SetComputeRootSignature, SetPipelineState,
              SetComputeRootDescriptorTable 7, Dispatch 1 1 1],
           state_s = INRECORD, descIdxOffset = 8, queryHeapsNeedToResolve = []\<rparr>,
          initial_globals\<lparr>buffers :=
            [\<lparr>size_b = 4096, handle = Some 0,
              state_b = D3D12_RESOURCE_STATE_NON_PIXEL_SHADER_RESOURCE\<rparr>],
            device := [CreateShaderResourceView (Some 0) 1024 4 7]\<rparr>)
   \<and> (8 :: 32 word) = 7 + (word_of_nat 1 + word_of_nat 0)"
proof -
  let ?h = "\<lparr>block = (1, 1, 1), thread = (1, 1, 1),
      inputs = [\<lparr>shape = [1024], name = ''A'', dtype = ''float32''\<rparr>],
      outputs = [], source = []\<rparr>"
  let ?s = "\<lparr>fenceVal = 0, pCmdList = [], state_s = INRECORD, descIdxOffset = 7,
      queryHeapsNeedToResolve = []\<rparr>"
  let ?g = "initial_globals\<lparr>buffers :=
        [\<lparr>size_b = 4096, handle = Some 0, state_b = D3D12_RESOURCE_STATE_COMMON\<rparr>]\<rparr>"
  let ?s' = "\<lparr>fenceVal = 0,
           pCmdList =
             [ResourceBarrier (TRANSITION (Some 0) D3D12_RESOURCE_STATE_COMMON
                D3D12_RESOURCE_STATE_NON_PIXEL_SHADER_RESOURCE),
              SetComputeRootSignature, SetPipelineState,
              SetComputeRootDescriptorTable 7, Dispatch 1 1 1],
           state_s = INRECORD, descIdxOffset = 8, queryHeapsNeedToResolve = []\<rparr>"
  let ?g' = "initial_globals\<lparr>buffers :=
            [\<lparr>size_b = 4096, handle = Some 0,
              state_b = D3D12_RESOURCE_STATE_NON_PIXEL_SHADER_RESOURCE\<rparr>],
            device := [CreateShaderResourceView (Some 0) 1024 4 7]\<rparr>"
  have run: "dxLaunchShaderAsync True ?h [0] ?s ?g = Inr (?s', ?g')"
    by (simp add: launch_eval)
  from dxLaunchShaderAsync_cursor [of ?h "[0]" ?s ?g ?s' ?g', THEN conjunct1, THEN mp, OF run]
  have "descIdxOffset ?s' = descIdxOffset ?s
          + (word_of_nat (length (inputs ?h)) + word_of_nat (length (outputs ?h)))"
    by (rule conjunct2)
  then have "(8 :: 32 word) = 7 + (word_of_nat 1 + word_of_nat 0)" by simp
  with run show ?thesis by (rule conjI)
qed

end
